theory Spec2Isabelle
  imports Complex_Main
begin

section \<open>JavaScript values used by the pipeline\<close>

text \<open>
  A JavaScript \<^verbatim>\<open>number\<close> is modelled as a real number or one of the three
  non-finite values. Arithmetic on finite numbers is exact here: rounding and overflow of
  IEEE doubles are outside the model, so a quotient of two finite numbers with a nonzero
  divisor is always finite. \<^verbatim>\<open>Number.isFinite\<close> is the test for \<open>Fin\<close>.
\<close>

datatype jsnum = Fin real | NaN | PosInf | NegInf

text \<open>
  A value read out of parsed JSON (the \<^verbatim>\<open>any\<close>-typed fields of the ffprobe report and
  of the stored metadata document): absent, null, a boolean, a number or a string.
\<close>

datatype jsval = JUndefined | JNull | JBool bool | JNum real | JStr string

subsection \<open>\<^verbatim>\<open>Number(string)\<close>\<close>

text \<open>
  The string-to-number conversion of the language: surrounding white space is dropped, the
  empty string is 0, then an optionally signed decimal literal (with fraction and exponent),
  a signed \<^verbatim>\<open>Infinity\<close>, or an unsigned hexadecimal, octal or binary integer literal;
  everything else is NaN. Only the ASCII white-space characters are modelled.
\<close>

definition isStrWhiteSpace :: "char \<Rightarrow> bool" where
  "isStrWhiteSpace c = (c \<in> {CHR '' '', CHR 0x09, CHR 0x0A, CHR 0x0B, CHR 0x0C, CHR 0x0D})"

definition trim :: "string \<Rightarrow> string" where
  "trim s = rev (dropWhile isStrWhiteSpace (rev (dropWhile isStrWhiteSpace s)))"

definition isDigit :: "char \<Rightarrow> bool" where
  "isDigit c = (c \<in> set ''0123456789'')"

definition digitVal :: "char \<Rightarrow> int" where
  "digitVal c = of_char c - 48"

definition decimalValue :: "string \<Rightarrow> int" where
  "decimalValue ds = foldl (\<lambda>n c. 10 * n + digitVal c) 0 ds"

definition scale10 :: "real \<Rightarrow> int \<Rightarrow> real" where
  "scale10 m e = (if 0 \<le> e then m * 10 ^ nat e else m / 10 ^ nat (- e))"

text \<open>The exponent part after the mantissa: nothing, or \<^verbatim>\<open>e\<close>/\<^verbatim>\<open>E\<close>, an optional sign and digits.\<close>

definition parseExponent :: "string \<Rightarrow> int option" where
  "parseExponent r =
     (case r of
        [] \<Rightarrow> Some 0
      | c # ds \<Rightarrow>
          if c = CHR ''e'' \<or> c = CHR ''E'' then
            (case ds of
               [] \<Rightarrow> None
             | d # ds' \<Rightarrow>
                 if d = CHR ''-'' then
                   (if ds' \<noteq> [] \<and> list_all isDigit ds' then Some (- decimalValue ds') else None)
                 else if d = CHR ''+'' then
                   (if ds' \<noteq> [] \<and> list_all isDigit ds' then Some (decimalValue ds') else None)
                 else if list_all isDigit ds then Some (decimalValue ds) else None)
          else None)"

text \<open>An unsigned decimal literal: digits, an optional fraction, an optional exponent.\<close>

definition parseUnsignedDecimal :: "string \<Rightarrow> real option" where
  "parseUnsignedDecimal s =
     (let ip = takeWhile isDigit s;
          r1 = dropWhile isDigit s;
          dot = (r1 \<noteq> [] \<and> hd r1 = CHR ''.'');
          fp = (if dot then takeWhile isDigit (tl r1) else []);
          r2 = (if dot then dropWhile isDigit (tl r1) else r1)
      in if ip = [] \<and> fp = [] then None
         else (case parseExponent r2 of
                 None \<Rightarrow> None
               | Some e \<Rightarrow> Some (scale10 (of_int (decimalValue (ip @ fp))) (e - int (length fp)))))"

definition radixDigit :: "int \<Rightarrow> char \<Rightarrow> int option" where
  "radixDigit b c =
     (let v = (if isDigit c then digitVal c
               else if c \<in> set ''abcdef'' then of_char c - 87
               else if c \<in> set ''ABCDEF'' then of_char c - 55
               else 99)
      in if v < b then Some v else None)"

fun radixValue :: "int \<Rightarrow> int \<Rightarrow> string \<Rightarrow> int option" where
  "radixValue b acc [] = Some acc"
| "radixValue b acc (c # cs) =
     (case radixDigit b c of None \<Rightarrow> None | Some v \<Rightarrow> radixValue b (b * acc + v) cs)"

definition parseNonDecimal :: "string \<Rightarrow> int option" where
  "parseNonDecimal s =
     (case s of
        z # p # ds \<Rightarrow>
          if z = CHR ''0'' \<and> ds \<noteq> [] then
            (if p = CHR ''x'' \<or> p = CHR ''X'' then radixValue 16 0 ds
             else if p = CHR ''o'' \<or> p = CHR ''O'' then radixValue 8 0 ds
             else if p = CHR ''b'' \<or> p = CHR ''B'' then radixValue 2 0 ds
             else None)
          else None
      | _ \<Rightarrow> None)"

definition parseSignless :: "string \<Rightarrow> jsnum" where
  "parseSignless s =
     (if s = ''Infinity'' then PosInf
      else (case parseUnsignedDecimal s of Some x \<Rightarrow> Fin x | None \<Rightarrow> NaN))"

definition negate :: "jsnum \<Rightarrow> jsnum" where
  "negate n = (case n of Fin x \<Rightarrow> Fin (- x) | NaN \<Rightarrow> NaN | PosInf \<Rightarrow> NegInf | NegInf \<Rightarrow> PosInf)"

definition stringToNumber :: "string \<Rightarrow> jsnum" where
  "stringToNumber str =
     (let s = trim str
      in if s = [] then Fin 0
         else (case parseNonDecimal s of
                 Some n \<Rightarrow> Fin (of_int n)
               | None \<Rightarrow>
                   if hd s = CHR ''-'' then negate (parseSignless (tl s))
                   else if hd s = CHR ''+'' then parseSignless (tl s)
                   else parseSignless s))"

text \<open>\<^verbatim>\<open>Number(x)\<close> on a JSON value.\<close>

definition toNumber :: "jsval \<Rightarrow> jsnum" where
  "toNumber x =
     (case x of
        JUndefined \<Rightarrow> NaN
      | JNull \<Rightarrow> Fin 0
      | JBool b \<Rightarrow> Fin (if b then 1 else 0)
      | JNum r \<Rightarrow> Fin r
      | JStr s \<Rightarrow> stringToNumber s)"

subsection \<open>\<^verbatim>\<open>String.prototype.split\<close> with a one-character separator\<close>

fun split_on :: "char \<Rightarrow> string \<Rightarrow> string list" where
  "split_on c [] = [[]]"
| "split_on c (x # xs) =
     (if x = c then [] # split_on c xs
      else (case split_on c xs of [] \<Rightarrow> [[x]] | p # ps \<Rightarrow> (x # p) # ps))"

section \<open>Metadata extraction (videoMetadata.ts)\<close>

text \<open>
  \<^verbatim>\<open>parseFraction\<close>: a missing, null or empty expression is unknown; an expression that
  does not split into exactly two parts at \<^verbatim>\<open>/\<close> is taken as a plain number; otherwise
  both parts must be finite, the divisor nonzero and the quotient positive.
\<close>

definition parseFraction :: "string option \<Rightarrow> real option" where
  "parseFraction fr =
     (case fr of
        None \<Rightarrow> None
      | Some s \<Rightarrow>
          if s = [] then None
          else (case split_on CHR ''/'' s of
                  [a, b] \<Rightarrow>
                    (case stringToNumber a of
                       Fin num \<Rightarrow>
                         (case stringToNumber b of
                            Fin den \<Rightarrow>
                              if den = 0 then None
                              else (let val = num / den in if val > 0 then Some val else None)
                          | _ \<Rightarrow> None)
                     | _ \<Rightarrow> None)
                | _ \<Rightarrow> (case stringToNumber s of Fin asNum \<Rightarrow> Some asNum | _ \<Rightarrow> None)))"

text \<open>\<^verbatim>\<open>a ?? b\<close> on nullable values.\<close>

definition orElse :: "'a option \<Rightarrow> 'a option \<Rightarrow> 'a option" where
  "orElse a b = (case a of Some x \<Rightarrow> Some x | None \<Rightarrow> b)"

text \<open>The frame rate of a stream: \<^verbatim>\<open>r_frame_rate\<close> first, then \<^verbatim>\<open>avg_frame_rate\<close>.\<close>

definition deriveFps :: "string option \<Rightarrow> string option \<Rightarrow> real option" where
  "deriveFps r_frame_rate avg_frame_rate =
     orElse (parseFraction r_frame_rate) (parseFraction avg_frame_rate)"

text \<open>\<^verbatim>\<open>parseDurationSeconds\<close>: finite and not negative, else unknown.\<close>

definition parseDurationSeconds :: "jsval \<Rightarrow> real option" where
  "parseDurationSeconds x =
     (case toNumber x of Fin n \<Rightarrow> if n \<ge> 0 then Some n else None | _ \<Rightarrow> None)"

text \<open>
  The report of the prober, as far as the pipeline reads it. The fields that are rendered
  with \<^verbatim>\<open>String(...)\<close> (the rotate tag and the rotation of a side-data entry) hold that
  rendering, \<open>None\<close> when the value is absent or null. Aspect ratio, codec and container
  are read by no operation below and are left out.
\<close>

record stream =
  codec_type :: "string option"
  disposition_default :: jsval
  s_width :: jsval
  s_height :: jsval
  r_frame_rate :: "string option"
  avg_frame_rate :: "string option"
  s_duration :: jsval
  tags_rotate :: "string option"
  side_data_list :: "string option list"

record FfprobeJson =
  streams :: "stream list"
  format_duration :: jsval
  format_size :: jsval

record ComputedVideoMetadata =
  fps :: "real option"
  duration_seconds :: "real option"
  width :: "real option"
  height :: "real option"
  rotation_raw :: "string option"
  file_size_bytes :: "real option"

text \<open>
  \<^verbatim>\<open>extractRotationRaw\<close>: the rotate tag, else the first side-data entry that carries a
  rotation (the second test of the source's loop body asks for the same rotation field again
  and can add nothing).
\<close>

definition extractRotationRaw :: "stream \<Rightarrow> string option" where
  "extractRotationRaw videoStream =
     (case tags_rotate videoStream of
        Some r \<Rightarrow> Some r
      | None \<Rightarrow> (case List.find (\<lambda>e. e \<noteq> None) (side_data_list videoStream) of
                   Some e \<Rightarrow> e
                 | None \<Rightarrow> None))"

section \<open>The file system\<close>

text \<open>
  A path leads to a regular file, a directory or an entry that \<^verbatim>\<open>statSync\<close> cannot read
  (a dangling link). A regular file has its size and, standing for its content, the report
  the prober gives on it (\<open>None\<close> when the prober fails on it). Directories on the way to
  an entry are implicit, so \<^verbatim>\<open>mkdirSync(..., {recursive: true})\<close> changes nothing. The size
  of a directory is read nowhere and is put at 0. Paths are joined as they are; video ids are
  taken to be plain names, as the UUIDs of the store are.
\<close>

datatype node = RegularFile int "FfprobeJson option" | Directory | Dangling

type_synonym filesystem = "(string \<times> node) list"

record Stats =
  isFile :: bool
  size :: int

definition statSync :: "filesystem \<Rightarrow> string \<Rightarrow> Stats option" where
  "statSync fs p =
     (case map_of fs p of
        Some (RegularFile n _) \<Rightarrow> Some \<lparr>isFile = True, size = n\<rparr>
      | Some Directory \<Rightarrow> Some \<lparr>isFile = False, size = 0\<rparr>
      | _ \<Rightarrow> None)"

definition removeEntry :: "string \<Rightarrow> filesystem \<Rightarrow> filesystem" where
  "removeEntry p fs = filter (\<lambda>e. fst e \<noteq> p) fs"

definition writeEntry :: "string \<Rightarrow> node \<Rightarrow> filesystem \<Rightarrow> filesystem" where
  "writeEntry p n fs = (p, n) # removeEntry p fs"

text \<open>\<^verbatim>\<open>safeUnlink\<close>: a file or link is removed, every failure is swallowed.\<close>

definition safeUnlink :: "filesystem \<Rightarrow> string \<Rightarrow> filesystem" where
  "safeUnlink fs p =
     (case map_of fs p of
        Some (RegularFile _ _) \<Rightarrow> removeEntry p fs
      | Some Dangling \<Rightarrow> removeEntry p fs
      | _ \<Rightarrow> fs)"

definition startsWith :: "string \<Rightarrow> string \<Rightarrow> bool" where
  "startsWith pre s = (take (length pre) s = pre)"

definition endsWith :: "string \<Rightarrow> string \<Rightarrow> bool" where
  "endsWith suf s = (length suf \<le> length s \<and> drop (length s - length suf) s = suf)"

definition path_join :: "string \<Rightarrow> string \<Rightarrow> string" where
  "path_join dir name = dir @ ''/'' @ name"

text \<open>\<^verbatim>\<open>readdirSync\<close>: the names of the entries directly under a directory.\<close>

definition readdirSync :: "filesystem \<Rightarrow> string \<Rightarrow> string list" where
  "readdirSync fs dir =
     remdups (map (\<lambda>e. drop (length dir + 1) (fst e))
                (filter (\<lambda>e. startsWith (dir @ ''/'') (fst e)
                             \<and> drop (length dir + 1) (fst e) \<noteq> []
                             \<and> CHR ''/'' \<notin> set (drop (length dir + 1) (fst e))) fs))"

text \<open>\<^verbatim>\<open>fileLooksComplete\<close>: a regular file of more than 1024 bytes.\<close>

definition fileLooksComplete :: "filesystem \<Rightarrow> string \<Rightarrow> bool" where
  "fileLooksComplete fs p =
     (case statSync fs p of Some st \<Rightarrow> isFile st \<and> size st > 1024 | None \<Rightarrow> False)"

section \<open>Paths (paths.ts)\<close>

text \<open>\<^verbatim>\<open>String(n)\<close> for a natural number, and \<^verbatim>\<open>padStart\<close>.\<close>

definition digitChar :: "nat \<Rightarrow> char" where
  "digitChar d = ''0123456789'' ! d"

fun digitsOf :: "nat \<Rightarrow> string" where
  "digitsOf n = (if n < 10 then [digitChar n] else digitsOf (n div 10) @ [digitChar (n mod 10)])"

declare digitsOf.simps [simp del]

definition padStart :: "nat \<Rightarrow> char \<Rightarrow> string \<Rightarrow> string" where
  "padStart n c s = replicate (n - length s) c @ s"

text \<open>The working directory of the process is a fixed absolute path.\<close>

definition process_cwd :: string where
  "process_cwd = ''/app''"

definition getVideoDir :: "string \<Rightarrow> string" where
  "getVideoDir video_id = process_cwd @ ''/data/videos/'' @ video_id"

definition getClipsDir :: "string \<Rightarrow> string" where
  "getClipsDir video_id = path_join (getVideoDir video_id) ''clips''"

definition clipName :: "nat \<Rightarrow> string" where
  "clipName clipIndex = ''clip_'' @ padStart 3 CHR ''0'' (digitsOf clipIndex) @ ''.mp4''"

definition clipPath :: "string \<Rightarrow> nat \<Rightarrow> string" where
  "clipPath video_id clipIndex = path_join (getClipsDir video_id) (clipName clipIndex)"

section \<open>The metadata store (db/queries.ts)\<close>

datatype VideoStatus = Pending | Approved | Rejected

datatype ClipJobState = NotStarted | Generating | Done | Failed

text \<open>
  The text of the column \<^verbatim>\<open>metadata_json\<close> is kept by what \<^verbatim>\<open>JSON.parse\<close> makes of it:
  it is rejected, or it yields a document whose \<^verbatim>\<open>duration_seconds\<close> is the given value
  (\<open>JUndefined\<close> when the field or the whole object is missing).
\<close>

datatype json_text = Unparseable | Document jsval

text \<open>
  A timestamp text is kept by what \<^verbatim>\<open>Date.parse\<close> makes of it: the milliseconds of an
  ISO date, or NaN.
\<close>

datatype date_text = Iso int | NotADate

definition Date_parse :: "date_text \<Rightarrow> jsnum" where
  "Date_parse t = (case t of Iso ms \<Rightarrow> Fin (of_int ms) | NotADate \<Rightarrow> NaN)"

record VideoRow =
  video_id :: string
  created_at :: date_text
  filename :: string
  original_path :: string
  status :: VideoStatus
  metadata_json :: "json_text option"
  v_rotation_raw :: "string option"
  error_message :: "string option"

record ClipRow =
  clip_id :: string
  c_video_id :: string
  clip_index :: nat
  path :: string
  c_duration :: "real option"
  c_fps :: "real option"
  c_width :: "real option"
  c_height :: "real option"
  c_file_size_bytes :: "real option"

text \<open>A row of \<^verbatim>\<open>clip_jobs\<close>; the table is keyed by the video id.\<close>

record ClipJob =
  state :: ClipJobState
  last_stderr :: "string option"
  last_exit_code :: "int option"
  updated_at :: date_text

text \<open>The arguments of one transcoder call that vary from segment to segment.\<close>

record FfmpegArgs =
  arg_ss :: real
  arg_i :: string
  arg_t :: real
  arg_out :: string

text \<open>
  The state the pipeline works on: the three tables, the file system, the process-local set
  of running jobs, the clock in milliseconds, and a journal of the transcoder calls made.
\<close>

record world =
  videos :: "VideoRow list"
  clips :: "ClipRow list"
  clip_jobs :: "string \<rightharpoonup> ClipJob"
  files :: filesystem
  activeJobs :: "string set"
  now :: int
  calls :: "FfmpegArgs list"

datatype error =
    VideoNotFound
  | ForeignKeyFailed
  | FfprobeFailed
  | NoVideoStream
  | DurationUnknown

definition nowIso :: "world \<Rightarrow> date_text" where
  "nowIso w = Iso (now w)"

definition makeClipId :: "string \<Rightarrow> nat \<Rightarrow> string" where
  "makeClipId videoId clipIndex = videoId @ '':'' @ padStart 3 CHR ''0'' (digitsOf clipIndex)"

text \<open>The rows come back in table order; the \<^verbatim>\<open>ORDER BY created_at\<close> is not modelled.\<close>

definition listVideos :: "world \<Rightarrow> VideoRow list" where
  "listVideos w = videos w"

definition getVideo :: "world \<Rightarrow> string \<Rightarrow> error + VideoRow" where
  "getVideo w vid =
     (case List.find (\<lambda>r. video_id r = vid) (videos w) of
        None \<Rightarrow> Inl VideoNotFound
      | Some row \<Rightarrow> Inr row)"

definition updateRows :: "('r \<Rightarrow> bool) \<Rightarrow> ('r \<Rightarrow> 'r) \<Rightarrow> 'r list \<Rightarrow> 'r list" where
  "updateRows P f rows = map (\<lambda>r. if P r then f r else r) rows"

definition saveVideoMetadata ::
  "world \<Rightarrow> string \<Rightarrow> json_text \<Rightarrow> string option \<Rightarrow> error + world" where
  "saveVideoMetadata w vid metadataJson rotationRaw =
     (let w' = w\<lparr>videos := updateRows (\<lambda>r. video_id r = vid)
                   (\<lambda>r. r\<lparr>metadata_json := Some metadataJson, v_rotation_raw := rotationRaw\<rparr>)
                   (videos w)\<rparr>
      in case getVideo w' vid of Inl e \<Rightarrow> Inl e | Inr _ \<Rightarrow> Inr w')"

definition setVideoError :: "world \<Rightarrow> string \<Rightarrow> string option \<Rightarrow> error + world" where
  "setVideoError w vid msg =
     (let w' = w\<lparr>videos := updateRows (\<lambda>r. video_id r = vid)
                   (\<lambda>r. r\<lparr>error_message := msg\<rparr>) (videos w)\<rparr>
      in case getVideo w' vid of Inl e \<Rightarrow> Inl e | Inr _ \<Rightarrow> Inr w')"

definition videoExists :: "world \<Rightarrow> string \<Rightarrow> bool" where
  "videoExists w vid = list_ex (\<lambda>r. video_id r = vid) (videos w)"

text \<open>
  \<^verbatim>\<open>upsertClip\<close>: a row with the same (video, index) is updated in place and keeps its
  clip id; otherwise a row is inserted, which the foreign key allows only for a video that
  exists. Clip ids are derived from the key, so the primary key adds no further conflict.
\<close>

definition sameClip :: "string \<Rightarrow> nat \<Rightarrow> ClipRow \<Rightarrow> bool" where
  "sameClip vid i r = (c_video_id r = vid \<and> clip_index r = i)"

definition upsertClip :: "world \<Rightarrow> ClipRow \<Rightarrow> error + world" where
  "upsertClip w input =
     (if list_ex (sameClip (c_video_id input) (clip_index input)) (clips w) then
        Inr (w\<lparr>clips := updateRows (sameClip (c_video_id input) (clip_index input))
                   (\<lambda>r. r\<lparr>path := path input, c_duration := c_duration input,
                           c_fps := c_fps input, c_width := c_width input,
                           c_height := c_height input,
                           c_file_size_bytes := c_file_size_bytes input\<rparr>) (clips w)\<rparr>)
      else if videoExists w (c_video_id input) then
        Inr (w\<lparr>clips := clips w @ [input]\<rparr>)
      else Inl ForeignKeyFailed)"

definition listClips :: "world \<Rightarrow> string \<Rightarrow> ClipRow list" where
  "listClips w vid = sort_key clip_index (filter (\<lambda>r. c_video_id r = vid) (clips w))"

text \<open>\<^verbatim>\<open>setClipJobState\<close>: an upsert keyed by the video id, stamped with the current time.\<close>

definition setClipJobState ::
  "world \<Rightarrow> string \<Rightarrow> ClipJobState \<Rightarrow> string option \<Rightarrow> int option \<Rightarrow> error + world" where
  "setClipJobState w vid st stderr exitCode =
     (if clip_jobs w vid = None \<and> \<not> videoExists w vid then Inl ForeignKeyFailed
      else Inr (w\<lparr>clip_jobs := (clip_jobs w)(vid \<mapsto>
                  \<lparr>state = st, last_stderr = stderr, last_exit_code = exitCode,
                   updated_at = nowIso w\<rparr>)\<rparr>))"

definition getClipJob :: "world \<Rightarrow> string \<Rightarrow> ClipJob option" where
  "getClipJob w vid = clip_jobs w vid"

section \<open>Probing a file (ffprobe.ts, videoMetadata.ts)\<close>

definition runFfprobe :: "filesystem \<Rightarrow> string \<Rightarrow> error + FfprobeJson" where
  "runFfprobe fs filePath =
     (case map_of fs filePath of
        Some (RegularFile _ (Some raw)) \<Rightarrow> Inr raw
      | _ \<Rightarrow> Inl FfprobeFailed)"

definition finiteOrNull :: "jsval \<Rightarrow> real option" where
  "finiteOrNull x = (case toNumber x of Fin n \<Rightarrow> Some n | _ \<Rightarrow> None)"

definition isVideo :: "stream \<Rightarrow> bool" where
  "isVideo s = (codec_type s = Some ''video'')"

definition extractVideoMetadata :: "filesystem \<Rightarrow> string \<Rightarrow> error + ComputedVideoMetadata" where
  "extractVideoMetadata fs filePath =
     (case runFfprobe fs filePath of
        Inl e \<Rightarrow> Inl e
      | Inr raw \<Rightarrow>
          (case orElse (List.find (\<lambda>s. isVideo s \<and> disposition_default s = JNum 1) (streams raw))
                       (List.find isVideo (streams raw)) of
             None \<Rightarrow> Inl NoVideoStream
           | Some videoStream \<Rightarrow>
               Inr \<lparr>fps = deriveFps (r_frame_rate videoStream) (avg_frame_rate videoStream),
                    duration_seconds =
                      orElse (parseDurationSeconds (format_duration raw))
                             (parseDurationSeconds (s_duration videoStream)),
                    width = finiteOrNull (s_width videoStream),
                    height = finiteOrNull (s_height videoStream),
                    rotation_raw = extractRotationRaw videoStream,
                    file_size_bytes =
                      (case statSync fs filePath of
                         Some st \<Rightarrow> Some (of_int (size st))
                       | None \<Rightarrow> finiteOrNull (format_size raw))\<rparr>))"

section \<open>Resolving the duration (duration.ts)\<close>

text \<open>What \<^verbatim>\<open>JSON.stringify\<close> of a metadata record leaves under \<^verbatim>\<open>duration_seconds\<close>.\<close>

definition JSON_stringify :: "ComputedVideoMetadata \<Rightarrow> json_text" where
  "JSON_stringify meta =
     Document (case duration_seconds meta of None \<Rightarrow> JNull | Some d \<Rightarrow> JNum d)"

text \<open>Step 1 of \<^verbatim>\<open>getDurationSeconds\<close>: the duration in the stored metadata, if usable.\<close>

definition cachedDuration :: "VideoRow \<Rightarrow> real option" where
  "cachedDuration v =
     (case metadata_json v of
        None \<Rightarrow> None
      | Some Unparseable \<Rightarrow> None
      | Some (Document x) \<Rightarrow>
          (case toNumber x of Fin d \<Rightarrow> if d > 0 then Some d else None | _ \<Rightarrow> None))"

definition getDurationSeconds :: "world \<Rightarrow> string \<Rightarrow> (error + real) \<times> world" where
  "getDurationSeconds w vid =
     (case getVideo w vid of
        Inl e \<Rightarrow> (Inl e, w)
      | Inr v \<Rightarrow>
          (case cachedDuration v of
             Some d \<Rightarrow> (Inr d, w)
           | None \<Rightarrow>
               (case extractVideoMetadata (files w) (original_path v) of
                  Inl e \<Rightarrow> (Inl e, w)
                | Inr meta \<Rightarrow>
                    (case saveVideoMetadata w vid (JSON_stringify meta) (rotation_raw meta) of
                       Inl e \<Rightarrow> (Inl e, w)
                     | Inr w' \<Rightarrow>
                         (case duration_seconds meta of
                            None \<Rightarrow> (Inl DurationUnknown, w')
                          | Some d \<Rightarrow>
                              if d \<le> 0 then (Inl DurationUnknown, w') else (Inr d, w'))))))"

section \<open>The backfill scanner (clipMetadataBackfill.ts)\<close>

text \<open>\<^verbatim>\<open>parseClipIndex\<close>: the names matched by \<^verbatim>\<open>/^clip_(\d{3})\.mp4$/\<close>.\<close>

definition parseClipIndex :: "string \<Rightarrow> nat option" where
  "parseClipIndex name =
     (if length name = 12 \<and> take 5 name = ''clip_''
         \<and> list_all isDigit (take 3 (drop 5 name)) \<and> drop 8 name = ''.mp4''
      then Some (nat (decimalValue (take 3 (drop 5 name))))
      else None)"

text \<open>
  The loop over the directory listing, with the two counters. A file whose \<^verbatim>\<open>statSync\<close>
  fails, that is no regular file or that has at most 1024 bytes is passed over; an exception
  of the metadata extraction or of the upsert leaves the loop and the function.
\<close>

fun backfillLoop ::
  "string \<Rightarrow> string \<Rightarrow> string list \<Rightarrow> nat \<Rightarrow> nat \<Rightarrow> world \<Rightarrow> (error + nat \<times> nat) \<times> world" where
  "backfillLoop vid clipsDir [] scanned upserted w = (Inr (scanned, upserted), w)"
| "backfillLoop vid clipsDir (f # fs) scanned upserted w =
     (case parseClipIndex f of
        None \<Rightarrow> backfillLoop vid clipsDir fs scanned upserted w
      | Some idx \<Rightarrow>
          (let fullPath = path_join clipsDir f in
           case statSync (files w) fullPath of
             None \<Rightarrow> backfillLoop vid clipsDir fs scanned upserted w
           | Some st \<Rightarrow>
               if \<not> isFile st \<or> size st \<le> 1024 then backfillLoop vid clipsDir fs scanned upserted w
               else
                 (case extractVideoMetadata (files w) fullPath of
                    Inl e \<Rightarrow> (Inl e, w)
                  | Inr meta \<Rightarrow>
                      (case upsertClip w
                              \<lparr>clip_id = makeClipId vid idx, c_video_id = vid, clip_index = idx,
                               path = fullPath, c_duration = duration_seconds meta,
                               c_fps = fps meta, c_width = width meta, c_height = height meta,
                               c_file_size_bytes =
                                 (case statSync (files w) fullPath of
                                    Some st2 \<Rightarrow> Some (of_int (size st2))
                                  | None \<Rightarrow> file_size_bytes meta)\<rparr> of
                         Inl e \<Rightarrow> (Inl e, w)
                       | Inr w' \<Rightarrow> backfillLoop vid clipsDir fs (Suc scanned) (Suc upserted) w'))))"

definition backfillClipMetadata :: "world \<Rightarrow> string \<Rightarrow> (error + nat \<times> nat) \<times> world" where
  "backfillClipMetadata w vid =
     backfillLoop vid (getClipsDir vid) (readdirSync (files w) (getClipsDir vid)) 0 0 w"

section \<open>Stale job recovery (recovery.ts)\<close>

definition STALE_MS :: int where
  "STALE_MS = 10 * 60 * 1000"

definition recoveryMessage :: string where
  "recoveryMessage = ''Recovery: job was Generating but stale for > 10 minutes.''"

fun recoverLoop :: "VideoRow list \<Rightarrow> int \<Rightarrow> world \<Rightarrow> error + world" where
  "recoverLoop [] now0 w = Inr w"
| "recoverLoop (v # vids) now0 w =
     (case getClipJob w (video_id v) of
        None \<Rightarrow> recoverLoop vids now0 w
      | Some job \<Rightarrow>
          if state job = Generating then
            (case Date_parse (updated_at job) of
               Fin updated \<Rightarrow>
                 if of_int now0 - updated > of_int STALE_MS then
                   (case setClipJobState w (video_id v) Failed (Some recoveryMessage) None of
                      Inl e \<Rightarrow> Inl e
                    | Inr w' \<Rightarrow> recoverLoop vids now0 w')
                 else recoverLoop vids now0 w
             | _ \<Rightarrow> recoverLoop vids now0 w)
          else recoverLoop vids now0 w)"

definition recoverStaleJobs :: "world \<Rightarrow> error + world" where
  "recoverStaleJobs w = recoverLoop (listVideos w) (now w) w"

section \<open>The command runner (utils/runCommand.ts)\<close>

text \<open>
  \<^verbatim>\<open>runCommand\<close> registers handlers and returns a promise. The run of one invocation is the
  sequence of events the runtime delivers to these handlers: a chunk on either stream, the
  timer going off, and the close of the child with its exit code (null after a signal).
\<close>

record CommandResult =
  exitCode :: int
  stdout :: string
  stderr :: string








section \<open>The clip segmenter (clipPipeline.ts)\<close>

subsection \<open>Messages and logs (logs.ts)\<close>

definition LF :: string where
  "LF = [CHR 0x0A]"

definition intToString :: "int \<Rightarrow> string" where
  "intToString n = (if n < 0 then CHR ''-'' # digitsOf (nat (- n)) else digitsOf (nat n))"

definition truncateForDb :: "string \<Rightarrow> nat \<Rightarrow> string" where
  "truncateForDb s mx =
     (if s = [] then []
      else if length s \<le> mx then s
      else take mx s @ LF @ ''... (truncated, total='' @ digitsOf (length s) @ '')'')"

text \<open>\<^verbatim>\<open>appendLog\<close> returns the path of the log; the text appended there is not tracked.\<close>

definition appendLog :: "string \<Rightarrow> string" where
  "appendLog name = path_join (process_cwd @ ''/data/logs'') name"

definition statusName :: "VideoStatus \<Rightarrow> string" where
  "statusName st = (case st of Pending \<Rightarrow> ''Pending'' | Approved \<Rightarrow> ''Approved'' | Rejected \<Rightarrow> ''Rejected'')"

definition stoppedMessage :: "VideoStatus \<Rightarrow> string" where
  "stoppedMessage st = ''Stopped: video status changed to '' @ statusName st @ '' during generation.''"

subsection \<open>The segment plan\<close>

definition CLIP_LEN_SECONDS :: real where
  "CLIP_LEN_SECONDS = 120"

text \<open>\<^verbatim>\<open>Math.max(1, Math.ceil(duration / CLIP_LEN_SECONDS))\<close>.\<close>

definition segmentTotal :: "real \<Rightarrow> nat" where
  "segmentTotal duration = nat (max 1 \<lceil>duration / CLIP_LEN_SECONDS\<rceil>)"

definition segmentStart :: "nat \<Rightarrow> real" where
  "segmentStart i = real i * CLIP_LEN_SECONDS"

text \<open>\<^verbatim>\<open>Math.min(CLIP_LEN_SECONDS, Math.max(0, duration - start))\<close>.\<close>

definition segmentLen :: "real \<Rightarrow> nat \<Rightarrow> real" where
  "segmentLen duration i = min CLIP_LEN_SECONDS (max 0 (duration - segmentStart i))"

subsection \<open>The run\<close>

text \<open>
  The transcoder is the environment of a run: a call gets the arguments and the state and
  gives back the result of the command and the state after it. Whatever happened while the
  run was waiting (the output file written, a reviewer changing the status of the video, the
  clock moving on) is in that state. The journal of calls is kept by the run itself. The
  waits for the prober are short next to those for the transcoder and are taken as atomic:
  the prober is a function of the file system at the time of the call.
\<close>

type_synonym transcoder = "FfmpegArgs \<Rightarrow> world \<Rightarrow> CommandResult \<times> world"

datatype outcome =
    Skipped
  | NotApproved
  | Stopped
  | TranscodeFailed
  | Completed
  | Threw error

definition clipRowFor ::
  "filesystem \<Rightarrow> string \<Rightarrow> nat \<Rightarrow> string \<Rightarrow> ComputedVideoMetadata \<Rightarrow> ClipRow" where
  "clipRowFor fs vid i p clipMeta =
     \<lparr>clip_id = makeClipId vid i, c_video_id = vid, clip_index = i, path = p,
      c_duration = duration_seconds clipMeta, c_fps = fps clipMeta,
      c_width = width clipMeta, c_height = height clipMeta,
      c_file_size_bytes =
        (case statSync fs p of
           Some st \<Rightarrow> Some (of_int (size st))
         | None \<Rightarrow> file_size_bytes clipMeta)\<rparr>"

text \<open>After the loop: the job is Done with exit code 0.\<close>

definition finishJob :: "string \<Rightarrow> world \<Rightarrow> outcome \<times> world" where
  "finishJob vid w =
     (case setClipJobState w vid Done None (Some 0) of
        Inl e \<Rightarrow> (Threw e, w)
      | Inr w' \<Rightarrow> (Completed, w'))"

text \<open>The branch taken when the transcoder exits with a code other than 0.\<close>

definition transcodeFailure ::
  "string \<Rightarrow> nat \<Rightarrow> nat \<Rightarrow> CommandResult \<Rightarrow> world \<Rightarrow> outcome \<times> world" where
  "transcodeFailure vid i ntotal res w =
     (let errorOutput = (if stderr res \<noteq> [] then stderr res
                         else if stdout res \<noteq> [] then stdout res else ''(no output)'');
          logPath = appendLog (vid @ ''-ffmpeg.log'')
      in case setClipJobState w vid Failed
                (Some (truncateForDb (errorOutput @ LF @ ''(full log: '' @ logPath @ '')'') 4000))
                (Some (exitCode res)) of
           Inl e \<Rightarrow> (Threw e, w)
         | Inr w1 \<Rightarrow>
             (case setVideoError w1 vid
                     (Some (''ffmpeg failed while generating clip '' @ digitsOf i @ ''/''
                            @ digitsOf (ntotal - 1) @ '' (exit='' @ intToString (exitCode res)
                            @ '').'' @ LF @ ''Full log: '' @ logPath @ LF
                            @ (if trim (stderr res) \<noteq> [] then truncateForDb (trim (stderr res)) 500
                               else ''(no stderr)''))) of
                Inl e \<Rightarrow> (Threw e, w1)
              | Inr w2 \<Rightarrow> (TranscodeFailed, w2)))"

text \<open>
  The loop over the segment indices. The list argument holds the indices still to come;
  \<^verbatim>\<open>break\<close> goes to the statement after the loop, \<^verbatim>\<open>return\<close> ends the run.
\<close>

fun segLoop ::
  "transcoder \<Rightarrow> string \<Rightarrow> VideoRow \<Rightarrow> real \<Rightarrow> nat \<Rightarrow> ClipRow list \<Rightarrow> nat list \<Rightarrow> world
   \<Rightarrow> outcome \<times> world" where
  "segLoop ff vid v duration ntotal existingRows [] w = finishJob vid w"
| "segLoop ff vid v duration ntotal existingRows (i # rest) w =
     (case getVideo w vid of
        Inl e \<Rightarrow> (Threw e, w)
      | Inr latest \<Rightarrow>
          if status latest \<noteq> Approved then
            (case setClipJobState w vid Failed (Some (stoppedMessage (status latest))) None of
               Inl e \<Rightarrow> (Threw e, w)
             | Inr w1 \<Rightarrow> (Stopped, w1))
          else if segmentLen duration i \<le> 1 / 100 then finishJob vid w
          else if fileLooksComplete (files w) (clipPath vid i) then
            (case List.find (\<lambda>r. clip_index r = i) existingRows of
               Some existingRow \<Rightarrow> segLoop ff vid v duration ntotal existingRows rest w
             | None \<Rightarrow>
                 (case extractVideoMetadata (files w) (clipPath vid i) of
                    Inl e \<Rightarrow> (Threw e, w)
                  | Inr clipMeta \<Rightarrow>
                      (case upsertClip w (clipRowFor (files w) vid i (clipPath vid i) clipMeta) of
                         Inl e \<Rightarrow> (Threw e, w)
                       | Inr w1 \<Rightarrow> segLoop ff vid v duration ntotal existingRows rest w1)))
          else
            (let w1 = w\<lparr>files := safeUnlink (files w) (clipPath vid i)\<rparr>;
                 args = \<lparr>arg_ss = segmentStart i, arg_i = original_path v,
                         arg_t = segmentLen duration i, arg_out = clipPath vid i\<rparr>;
                 res = fst (ff args w1);
                 w2 = (snd (ff args w1))\<lparr>calls := calls w1 @ [args]\<rparr>
             in if exitCode res \<noteq> 0 then transcodeFailure vid i ntotal res w2
                else
                  (case extractVideoMetadata (files w2) (clipPath vid i) of
                     Inl e \<Rightarrow> (Threw e, w2)
                   | Inr clipMeta \<Rightarrow>
                       (case upsertClip w2 (clipRowFor (files w2) vid i (clipPath vid i) clipMeta) of
                          Inl e \<Rightarrow> (Threw e, w2)
                        | Inr w3 \<Rightarrow>
                            (case setClipJobState w3 vid Generating None None of
                               Inl e \<Rightarrow> (Threw e, w3)
                             | Inr w4 \<Rightarrow> segLoop ff vid v duration ntotal existingRows rest w4)))))"

definition looksLikeClip :: "string \<Rightarrow> bool" where
  "looksLikeClip f = (startsWith ''clip_'' f \<and> endsWith ''.mp4'' f)"

text \<open>The drift repair before planning: rows missing altogether while clip files exist.\<close>

definition driftRepair :: "world \<Rightarrow> string \<Rightarrow> (error + ClipRow list) \<times> world" where
  "driftRepair w vid =
     (if list_ex looksLikeClip (readdirSync (files w) (getClipsDir vid)) \<and> listClips w vid = [] then
        (case backfillClipMetadata w vid of
           (Inl e, w') \<Rightarrow> (Inl e, w')
         | (Inr counts, w') \<Rightarrow> (Inr (listClips w' vid), w'))
      else (Inr (listClips w vid), w))"

text \<open>The body of the \<^verbatim>\<open>try\<close> block.\<close>

definition runBody :: "transcoder \<Rightarrow> string \<Rightarrow> world \<Rightarrow> outcome \<times> world" where
  "runBody ff vid w =
     (case getVideo w vid of
        Inl e \<Rightarrow> (Threw e, w)
      | Inr v \<Rightarrow>
          if status v \<noteq> Approved then (NotApproved, w)
          else
            (case setVideoError w vid None of
               Inl e \<Rightarrow> (Threw e, w)
             | Inr w1 \<Rightarrow>
                 (case setClipJobState w1 vid Generating None None of
                    Inl e \<Rightarrow> (Threw e, w1)
                  | Inr w2 \<Rightarrow>
                      (case driftRepair w2 vid of
                         (Inl e, w3) \<Rightarrow> (Threw e, w3)
                       | (Inr existingRows, w3) \<Rightarrow>
                           (case getDurationSeconds w3 vid of
                              (Inl e, w4) \<Rightarrow> (Threw e, w4)
                            | (Inr duration, w4) \<Rightarrow>
                                segLoop ff vid v duration (segmentTotal duration) existingRows
                                  [0..<segmentTotal duration] w4)))))"

text \<open>
  \<^verbatim>\<open>generateClipsForVideo\<close>: the guard on the set of running jobs, the body, and the
  \<^verbatim>\<open>finally\<close> that takes the video out of the set again.
\<close>

definition generateClipsForVideo :: "transcoder \<Rightarrow> string \<Rightarrow> world \<Rightarrow> outcome \<times> world" where
  "generateClipsForVideo ff vid w =
     (if vid \<in> activeJobs w then (Skipped, w)
      else
        (let r = runBody ff vid (w\<lparr>activeJobs := insert vid (activeJobs w)\<rparr>)
         in (fst r, (snd r)\<lparr>activeJobs := activeJobs (snd r) - {vid}\<rparr>)))"

section \<open>Notions used in the statements\<close>

subsection \<open>The recovery sweep\<close>

text \<open>A job that the sweep at time \<open>n\<close> takes for stale, and the record it leaves.\<close>

definition isStale :: "int \<Rightarrow> ClipJob option \<Rightarrow> bool" where
  "isStale n jo =
     (case jo of
        None \<Rightarrow> False
      | Some j \<Rightarrow> state j = Generating \<and>
          (case updated_at j of Iso u \<Rightarrow> n - u > STALE_MS | NotADate \<Rightarrow> False))"

definition reapedJob :: "world \<Rightarrow> ClipJob" where
  "reapedJob w = \<lparr>state = Failed, last_stderr = Some recoveryMessage, last_exit_code = None,
                  updated_at = Iso (now w)\<rparr>"

subsection \<open>Runs of the command runner\<close>





subsection \<open>Fresh runs of the segmenter\<close>






subsection \<open>A second call during a run\<close>

text \<open>
  A transcoder during whose every call, before anything else happens, \<^verbatim>\<open>generateClipsForVideo\<close>
  is called again for the same video (with a transcoder of its own); and a transcoder that
  takes no video out of the set of running jobs.
\<close>

definition withSecondCall :: "transcoder \<Rightarrow> transcoder \<Rightarrow> string \<Rightarrow> transcoder" where
  "withSecondCall ff ff2 vid args w = ff args (snd (generateClipsForVideo ff2 vid w))"

definition keepsRunning :: "transcoder \<Rightarrow> string \<Rightarrow> bool" where
  "keepsRunning ff vid = (\<forall>args w. vid \<in> activeJobs w \<longrightarrow> vid \<in> activeJobs (snd (ff args w)))"

subsection \<open>The backfill scan\<close>

text \<open>A listed name that the scanner takes up: a clip name on a complete regular file.\<close>

definition eligible :: "filesystem \<Rightarrow> string \<Rightarrow> string \<Rightarrow> bool" where
  "eligible fs dir f = (parseClipIndex f \<noteq> None \<and> fileLooksComplete fs (path_join dir f))"

section \<open>Concrete states\<close>

text \<open>Videos whose jobs the recovery sweep meets.\<close>

definition sweepVideo :: "string \<Rightarrow> VideoRow" where
  "sweepVideo vid = \<lparr>video_id = vid, created_at = Iso 0, filename = ''a.mp4'',
     original_path = ''/app/data/videos/a/original.mp4'', status = Approved,
     metadata_json = None, v_rotation_raw = None, error_message = None\<rparr>"

definition sweepJob :: "int \<Rightarrow> ClipJob" where
  "sweepJob u = \<lparr>state = Generating, last_stderr = None, last_exit_code = None, updated_at = Iso u\<rparr>"

text \<open>Two running jobs at time 2000000: one last updated 1000 s ago, one 600 s ago.\<close>

definition sweepWorld :: world where
  "sweepWorld = \<lparr>videos = [sweepVideo ''a'', sweepVideo ''b''], clips = [],
     clip_jobs = [''a'' \<mapsto> sweepJob 1000000, ''b'' \<mapsto> sweepJob 1400000],
     files = [], activeJobs = {}, now = 2000000, calls = []\<rparr>"

text \<open>A source video without stored metadata, and what the prober reports on its file:
  once without any duration, once with a duration of 250 seconds.\<close>

definition probedStream :: stream where
  "probedStream = \<lparr>codec_type = Some ''video'', disposition_default = JNum 1,
     s_width = JNum 1920, s_height = JNum 1080, r_frame_rate = Some ''30000/1001'',
     avg_frame_rate = Some ''30000/1001'', s_duration = JUndefined,
     tags_rotate = Some ''90'', side_data_list = []\<rparr>"

definition reportWithoutDuration :: FfprobeJson where
  "reportWithoutDuration =
     \<lparr>streams = [probedStream], format_duration = JUndefined, format_size = JStr ''100000''\<rparr>"

definition reportWithDuration :: FfprobeJson where
  "reportWithDuration =
     \<lparr>streams = [probedStream], format_duration = JStr ''250.000000'', format_size = JStr ''100000''\<rparr>"

definition sourcePath :: string where
  "sourcePath = ''/app/data/videos/v1/original.mp4''"

definition freshVideo :: VideoRow where
  "freshVideo = \<lparr>video_id = ''v1'', created_at = Iso 0, filename = ''a.mp4'',
     original_path = sourcePath, status = Approved,
     metadata_json = None, v_rotation_raw = None, error_message = None\<rparr>"

definition worldWith :: "VideoRow \<Rightarrow> FfprobeJson \<Rightarrow> world" where
  "worldWith v report = \<lparr>videos = [v], clips = [], clip_jobs = Map.empty,
     files = [(sourcePath, RegularFile 100000 (Some report))],
     activeJobs = {}, now = 1000, calls = []\<rparr>"

definition metaOf :: "real option \<Rightarrow> ComputedVideoMetadata" where
  "metaOf d = \<lparr>fps = Some (30000 / 1001), duration_seconds = d, width = Some 1920,
     height = Some 1080, rotation_raw = Some ''90'', file_size_bytes = Some 100000\<rparr>"

text \<open>A video with a stored duration in a store without clips, and transcoders for it.\<close>

definition flatReport :: "string \<Rightarrow> FfprobeJson" where
  "flatReport d = \<lparr>streams = [probedStream\<lparr>s_duration := JStr d\<rparr>],
                   format_duration = JStr d, format_size = JUndefined\<rparr>"

definition cachedVideo :: "real \<Rightarrow> VideoRow" where
  "cachedVideo d = freshVideo\<lparr>metadata_json := Some (Document (JNum d))\<rparr>"

definition emptyWorld :: "VideoRow \<Rightarrow> world" where
  "emptyWorld v = \<lparr>videos = [v], clips = [], clip_jobs = Map.empty, files = [],
     activeJobs = {}, now = 1000, calls = []\<rparr>"

definition okResult :: CommandResult where
  "okResult = \<lparr>exitCode = 0, stdout = [], stderr = []\<rparr>"

text \<open>A transcoder that writes a clip of 5000 bytes and does nothing else.\<close>

definition writingFfmpeg :: transcoder where
  "writingFfmpeg args w =
     (okResult, w\<lparr>files := writeEntry (arg_out args) (RegularFile 5000 (Some (flatReport ''120.0''))) (files w)\<rparr>)"

text \<open>The same, with a reviewer rejecting the video while the segment at 120 s is transcoded.\<close>

definition rejectedMeanwhile :: transcoder where
  "rejectedMeanwhile args w =
     (let w' = snd (writingFfmpeg args w)
      in (okResult,
          if arg_ss args = 120
          then w'\<lparr>videos := updateRows (\<lambda>r. video_id r = ''v1'') (\<lambda>r. r\<lparr>status := Rejected\<rparr>) (videos w')\<rparr>
          else w'))"

text \<open>The state a first run on the 250 s video leaves.\<close>

definition afterFirstRun :: world where
  "afterFirstRun = snd (generateClipsForVideo writingFfmpeg ''v1'' (emptyWorld (cachedVideo 250)))"

text \<open>Two clip files on disk and no rows: the second file is a good clip, the first one is
  given.\<close>

definition clipsOnDisk :: "node \<Rightarrow> world" where
  "clipsOnDisk firstClip =
     \<lparr>videos = [cachedVideo 250], clips = [], clip_jobs = Map.empty,
      files = [(clipPath ''v1'' 0, firstClip),
               (clipPath ''v1'' 1, RegularFile 5000 (Some (flatReport ''120.0'')))],
      activeJobs = {}, now = 1000, calls = []\<rparr>"

section \<open>Properties of the metadata extraction\<close>






section \<open>Properties of the recovery sweep\<close>

lemma reapedJob_clip_jobs [simp]: "reapedJob (w\<lparr>clip_jobs := x\<rparr>) = reapedJob w"
  by (simp add: reapedJob_def)

lemma recoverLoop_result:
  "\<exists>w'. recoverLoop vids n w = Inr w'
        \<and> w' = w\<lparr>clip_jobs := clip_jobs w'\<rparr>
        \<and> (\<forall>vid. clip_jobs w' vid =
              (if vid \<in> video_id ` set vids \<and> isStale n (clip_jobs w vid)
               then Some (reapedJob w) else clip_jobs w vid))"
proof (induction vids arbitrary: w)
  case Nil
  then show ?case by simp
next
  case (Cons v vids)
  show ?case
  proof (cases "isStale n (clip_jobs w (video_id v))")
    case True
    then obtain j u where j: "clip_jobs w (video_id v) = Some j" "state j = Generating"
        "updated_at j = Iso u" "n - u > STALE_MS"
      by (auto simp: isStale_def split: option.splits date_text.splits)
    define w1 where "w1 = w\<lparr>clip_jobs := (clip_jobs w)(video_id v \<mapsto> reapedJob w)\<rparr>"
    have s: "setClipJobState w (video_id v) Failed (Some recoveryMessage) None = Inr w1"
      using j by (simp add: setClipJobState_def w1_def reapedJob_def nowIso_def)
    have step: "recoverLoop (v # vids) n w = recoverLoop vids n w1"
      using j s by (simp add: getClipJob_def Date_parse_def)
    from Cons.IH [of w1] obtain w' where w': "recoverLoop vids n w1 = Inr w'"
        "w' = w1\<lparr>clip_jobs := clip_jobs w'\<rparr>"
        "\<forall>vid. clip_jobs w' vid =
              (if vid \<in> video_id ` set vids \<and> isStale n (clip_jobs w1 vid)
               then Some (reapedJob w1) else clip_jobs w1 vid)" by blast
    have r1: "reapedJob w1 = reapedJob w" by (simp add: w1_def)
    have ns: "\<not> isStale n (Some (reapedJob w))" by (simp add: isStale_def reapedJob_def)
    have "w' = w\<lparr>clip_jobs := clip_jobs w'\<rparr>" using w'(2) by (simp add: w1_def)
    moreover have "\<forall>vid. clip_jobs w' vid =
              (if vid \<in> video_id ` set (v # vids) \<and> isStale n (clip_jobs w vid)
               then Some (reapedJob w) else clip_jobs w vid)"
      using w'(3) True ns unfolding r1 by (auto simp: w1_def)
    ultimately show ?thesis using step w'(1) by simp
  next
    case False
    then have step: "recoverLoop (v # vids) n w = recoverLoop vids n w"
      by (auto simp: isStale_def getClipJob_def Date_parse_def split: option.splits date_text.splits)
    from Cons.IH [of w] False show ?thesis unfolding step by auto
  qed
qed

text \<open>
  Claim C7. The recovery sweep always completes. A job of a known video that is Generating
  and whose \<^verbatim>\<open>updated_at\<close> lies more than the staleness window of 600000 ms (10 minutes)
  before the time of the sweep is Failed afterwards, with the recovery message, no exit code
  and the time of the sweep; a Generating job whose \<^verbatim>\<open>updated_at\<close> lies within the window
  is the same record afterwards.
\<close>

theorem stale_job_reaping:
  assumes "videoExists w vid" and "clip_jobs w vid = Some j" and "state j = Generating"
    and "updated_at j = Iso u"
  shows "STALE_MS = 600000 \<and>
         (\<exists>w'. recoverStaleJobs w = Inr w' \<and>
            (now w - u > STALE_MS \<longrightarrow>
               clip_jobs w' vid = Some \<lparr>state = Failed, last_stderr = Some recoveryMessage,
                                        last_exit_code = None, updated_at = Iso (now w)\<rparr>) \<and>
            (now w - u \<le> STALE_MS \<longrightarrow> clip_jobs w' vid = Some j))"
proof -
  have mem: "vid \<in> video_id ` set (listVideos w)"
    using assms(1) by (auto simp: videoExists_def listVideos_def list_ex_iff)
  have st: "isStale (now w) (clip_jobs w vid) = (now w - u > STALE_MS)"
    using assms by (simp add: isStale_def)
  from recoverLoop_result [of "listVideos w" "now w" w]
  obtain w' where r: "recoverLoop (listVideos w) (now w) w = Inr w'"
    and p: "clip_jobs w' vid =
              (if vid \<in> video_id ` set (listVideos w) \<and> isStale (now w) (clip_jobs w vid)
               then Some (reapedJob w) else clip_jobs w vid)" by blast
  have q: "clip_jobs w' vid = (if now w - u > STALE_MS then Some (reapedJob w) else Some j)"
    using p mem st assms(2) by simp
  have "STALE_MS = 600000" by (simp add: STALE_MS_def)
  moreover have "recoverStaleJobs w = Inr w'" using r by (simp add: recoverStaleJobs_def)
  moreover have "now w - u > STALE_MS \<longrightarrow>
               clip_jobs w' vid = Some \<lparr>state = Failed, last_stderr = Some recoveryMessage,
                                        last_exit_code = None, updated_at = Iso (now w)\<rparr>"
    using q by (simp add: reapedJob_def)
  moreover have "now w - u \<le> STALE_MS \<longrightarrow> clip_jobs w' vid = Some j"
    using q by simp
  ultimately show ?thesis by blast
qed

theorem stale_job_reaping_witness:
  "videoExists sweepWorld ''a'' \<and> clip_jobs sweepWorld ''a'' = Some (sweepJob 1000000)
   \<and> videoExists sweepWorld ''b'' \<and> clip_jobs sweepWorld ''b'' = Some (sweepJob 1400000)
   \<and> (\<exists>w'. recoverStaleJobs sweepWorld = Inr w'
         \<and> clip_jobs w' ''a'' = Some \<lparr>state = Failed, last_stderr = Some recoveryMessage,
                                      last_exit_code = None, updated_at = Iso 2000000\<rparr>
         \<and> clip_jobs w' ''b'' = Some (sweepJob 1400000))"
proof -
  have a: "videoExists sweepWorld ''a''" "clip_jobs sweepWorld ''a'' = Some (sweepJob 1000000)"
    "state (sweepJob 1000000) = Generating" "updated_at (sweepJob 1000000) = Iso 1000000"
    by (simp_all add: videoExists_def sweepWorld_def sweepVideo_def sweepJob_def)
  have b: "videoExists sweepWorld ''b''" "clip_jobs sweepWorld ''b'' = Some (sweepJob 1400000)"
    "state (sweepJob 1400000) = Generating" "updated_at (sweepJob 1400000) = Iso 1400000"
    by (simp_all add: videoExists_def sweepWorld_def sweepVideo_def sweepJob_def)
  have n: "now sweepWorld = 2000000" by (simp add: sweepWorld_def)
  from stale_job_reaping [OF a] obtain wa where
    ra: "recoverStaleJobs sweepWorld = Inr wa"
    and fa: "now sweepWorld - 1000000 > STALE_MS \<longrightarrow>
               clip_jobs wa ''a'' = Some \<lparr>state = Failed, last_stderr = Some recoveryMessage,
                                        last_exit_code = None, updated_at = Iso (now sweepWorld)\<rparr>"
    by blast
  from stale_job_reaping [OF b] obtain wb where
    rb: "recoverStaleJobs sweepWorld = Inr wb"
    and fb: "now sweepWorld - 1400000 \<le> STALE_MS \<longrightarrow>
               clip_jobs wb ''b'' = Some (sweepJob 1400000)"
    by blast
  have e: "wb = wa" using ra rb by simp
  have "clip_jobs wa ''a'' = Some \<lparr>state = Failed, last_stderr = Some recoveryMessage,
                                      last_exit_code = None, updated_at = Iso 2000000\<rparr>"
    using fa by (simp add: n STALE_MS_def)
  moreover have "clip_jobs wa ''b'' = Some (sweepJob 1400000)"
    using fb e by (simp add: n STALE_MS_def)
  ultimately show ?thesis using ra a(1,2) b(1,2) by blast
qed

section \<open>Properties of the command runner\<close>







section \<open>Properties of the duration resolver\<close>

lemma find_updateRows:
  assumes "\<And>r. P (f r) = P r"
  shows "List.find P (updateRows P f rows) = map_option f (List.find P rows)"
  using assms by (induction rows) (auto simp: updateRows_def)

lemma getVideo_after_save:
  assumes "getVideo w vid = Inr v"
  shows "saveVideoMetadata w vid mj rot =
           Inr (w\<lparr>videos := updateRows (\<lambda>r. video_id r = vid)
                   (\<lambda>r. r\<lparr>metadata_json := Some mj, v_rotation_raw := rot\<rparr>) (videos w)\<rparr>)"
    and "getVideo (w\<lparr>videos := updateRows (\<lambda>r. video_id r = vid)
                   (\<lambda>r. r\<lparr>metadata_json := Some mj, v_rotation_raw := rot\<rparr>) (videos w)\<rparr>) vid
           = Inr (v\<lparr>metadata_json := Some mj, v_rotation_raw := rot\<rparr>)"
proof -
  have f: "List.find (\<lambda>r. video_id r = vid) (videos w) = Some v"
    using assms by (simp add: getVideo_def split: option.splits)
  show g: "getVideo (w\<lparr>videos := updateRows (\<lambda>r. video_id r = vid)
                   (\<lambda>r. r\<lparr>metadata_json := Some mj, v_rotation_raw := rot\<rparr>) (videos w)\<rparr>) vid
           = Inr (v\<lparr>metadata_json := Some mj, v_rotation_raw := rot\<rparr>)"
    by (simp add: getVideo_def find_updateRows f)
  show "saveVideoMetadata w vid mj rot =
           Inr (w\<lparr>videos := updateRows (\<lambda>r. video_id r = vid)
                   (\<lambda>r. r\<lparr>metadata_json := Some mj, v_rotation_raw := rot\<rparr>) (videos w)\<rparr>)"
    using g by (simp add: saveVideoMetadata_def Let_def)
qed

lemma cachedDuration_stringify:
  "cachedDuration (v\<lparr>metadata_json := Some (JSON_stringify meta), v_rotation_raw := rot\<rparr>)
     = (case duration_seconds meta of None \<Rightarrow> None | Some d \<Rightarrow> if d > 0 then Some d else None)"
  by (simp add: cachedDuration_def JSON_stringify_def toNumber_def split: option.splits)

lemma cachedDuration_pos: "cachedDuration v = Some d \<Longrightarrow> 0 < d"
  by (auto simp: cachedDuration_def split: option.splits json_text.splits jsnum.splits if_splits)

lemma getDurationSeconds_probe:
  assumes "getVideo w vid = Inr v" and "cachedDuration v = None"
    and "extractVideoMetadata (files w) (original_path v) = Inr meta"
  shows "getDurationSeconds w vid =
           ((case duration_seconds meta of
               None \<Rightarrow> Inl DurationUnknown
             | Some d \<Rightarrow> if d \<le> 0 then Inl DurationUnknown else Inr d),
            w\<lparr>videos := updateRows (\<lambda>r. video_id r = vid)
                   (\<lambda>r. r\<lparr>metadata_json := Some (JSON_stringify meta),
                           v_rotation_raw := rotation_raw meta\<rparr>) (videos w)\<rparr>)"
  using assms getVideo_after_save(1) [OF assms(1)]
  by (simp add: getDurationSeconds_def split: option.splits)

text \<open>
  Claim C10. When \<^verbatim>\<open>getDurationSeconds\<close> finds no usable duration in the stored metadata
  and the probe of the source file returns metadata, the row of the video holds the probed
  metadata (\<^verbatim>\<open>metadata_json\<close> and \<^verbatim>\<open>rotation_raw\<close> overwritten) when the call ends, and this
  also when the probed duration is unknown or not positive and the call ends with the
  duration-unknown error: the store is written before the duration is looked at.
\<close>

theorem duration_unknown_after_persist:
  assumes "getVideo w vid = Inr v" and "cachedDuration v = None"
    and "extractVideoMetadata (files w) (original_path v) = Inr meta"
  shows "\<exists>r w'. getDurationSeconds w vid = (r, w')
           \<and> getVideo w' vid = Inr (v\<lparr>metadata_json := Some (JSON_stringify meta),
                                       v_rotation_raw := rotation_raw meta\<rparr>)
           \<and> ((duration_seconds meta = None \<or> (\<exists>d. duration_seconds meta = Some d \<and> d \<le> 0))
                \<longrightarrow> r = Inl DurationUnknown)"
  using getDurationSeconds_probe [OF assms] getVideo_after_save(2) [OF assms(1)]
  by auto

text \<open>
  Claim C4. For a video in the store: a usable (finite, positive) duration in the stored
  metadata is returned as it is and the state stays as it was, whatever the file system
  holds, so the source file is not looked at; every duration returned is
  positive; an error means that the stored metadata has no usable duration and that the
  probe gave no positive duration either; and when the stored metadata has none and the
  probe gives a positive duration, that duration is returned, the row then holds it, and
  the same call on the state reached returns it again without changing anything.
\<close>

theorem duration_resolver:
  assumes "getVideo w vid = Inr v"
  shows "(\<forall>d. cachedDuration v = Some d \<longrightarrow>
             0 < d \<and> getDurationSeconds w vid = (Inr d, w)
             \<and> (\<forall>fs. getDurationSeconds (w\<lparr>files := fs\<rparr>) vid = (Inr d, w\<lparr>files := fs\<rparr>)))
       \<and> (\<forall>d w'. getDurationSeconds w vid = (Inr d, w') \<longrightarrow> 0 < d)
       \<and> (\<forall>e w'. getDurationSeconds w vid = (Inl e, w') \<longrightarrow>
             cachedDuration v = None
             \<and> (\<forall>meta d. extractVideoMetadata (files w) (original_path v) = Inr meta
                          \<and> duration_seconds meta = Some d \<longrightarrow> d \<le> 0))
       \<and> (\<forall>meta d. cachedDuration v = None
             \<and> extractVideoMetadata (files w) (original_path v) = Inr meta
             \<and> duration_seconds meta = Some d \<and> 0 < d \<longrightarrow>
             (\<exists>w'. getDurationSeconds w vid = (Inr d, w')
                   \<and> (\<exists>v'. getVideo w' vid = Inr v' \<and> cachedDuration v' = Some d)
                   \<and> getDurationSeconds w' vid = (Inr d, w')))"
proof -
  have hit: "\<And>w v d. getVideo w vid = Inr v \<Longrightarrow> cachedDuration v = Some d
               \<Longrightarrow> getDurationSeconds w vid = (Inr d, w)"
    by (simp add: getDurationSeconds_def)
  have g': "\<And>fs. getVideo (w\<lparr>files := fs\<rparr>) vid = Inr v"
    using assms by (simp add: getVideo_def)
  have a: "\<forall>d. cachedDuration v = Some d \<longrightarrow>
             0 < d \<and> getDurationSeconds w vid = (Inr d, w)
             \<and> (\<forall>fs. getDurationSeconds (w\<lparr>files := fs\<rparr>) vid = (Inr d, w\<lparr>files := fs\<rparr>))"
    using hit [OF assms] hit [OF g'] cachedDuration_pos by blast
  have b: "\<forall>d w'. getDurationSeconds w vid = (Inr d, w') \<longrightarrow> 0 < d"
  proof (intro allI impI)
    fix d w' assume r: "getDurationSeconds w vid = (Inr d, w')"
    show "0 < d"
    proof (cases "cachedDuration v")
      case (Some c)
      then show ?thesis using hit [OF assms Some] r cachedDuration_pos by auto
    next
      case None
      show ?thesis
      proof (cases "extractVideoMetadata (files w) (original_path v)")
        case (Inl e)
        then show ?thesis using r assms None by (simp add: getDurationSeconds_def)
      next
        case (Inr meta)
        from getDurationSeconds_probe [OF assms None Inr] r show ?thesis
          by (auto split: option.splits if_splits)
      qed
    qed
  qed
  have c: "\<forall>e w'. getDurationSeconds w vid = (Inl e, w') \<longrightarrow>
             cachedDuration v = None
             \<and> (\<forall>meta d. extractVideoMetadata (files w) (original_path v) = Inr meta
                          \<and> duration_seconds meta = Some d \<longrightarrow> d \<le> 0)"
  proof (intro allI impI)
    fix e w' assume r: "getDurationSeconds w vid = (Inl e, w')"
    have n: "cachedDuration v = None"
    proof (cases "cachedDuration v")
      case (Some c)
      then show ?thesis using hit [OF assms Some] r by simp
    qed simp
    moreover have "\<forall>meta d. extractVideoMetadata (files w) (original_path v) = Inr meta
                          \<and> duration_seconds meta = Some d \<longrightarrow> d \<le> 0"
    proof (intro allI impI, elim conjE)
      fix meta d
      assume m: "extractVideoMetadata (files w) (original_path v) = Inr meta"
        and d: "duration_seconds meta = Some d"
      from getDurationSeconds_probe [OF assms n m] r d show "d \<le> 0"
        by (auto split: if_splits)
    qed
    ultimately show "cachedDuration v = None
             \<and> (\<forall>meta d. extractVideoMetadata (files w) (original_path v) = Inr meta
                          \<and> duration_seconds meta = Some d \<longrightarrow> d \<le> 0)" by blast
  qed
  have d: "\<forall>meta d. cachedDuration v = None
             \<and> extractVideoMetadata (files w) (original_path v) = Inr meta
             \<and> duration_seconds meta = Some d \<and> 0 < d \<longrightarrow>
             (\<exists>w'. getDurationSeconds w vid = (Inr d, w')
                   \<and> (\<exists>v'. getVideo w' vid = Inr v' \<and> cachedDuration v' = Some d)
                   \<and> getDurationSeconds w' vid = (Inr d, w'))"
  proof (intro allI impI, elim conjE)
    fix meta d
    assume n: "cachedDuration v = None"
      and m: "extractVideoMetadata (files w) (original_path v) = Inr meta"
      and ds: "duration_seconds meta = Some d" and pos: "0 < d"
    let ?w' = "w\<lparr>videos := updateRows (\<lambda>r. video_id r = vid)
                   (\<lambda>r. r\<lparr>metadata_json := Some (JSON_stringify meta),
                           v_rotation_raw := rotation_raw meta\<rparr>) (videos w)\<rparr>"
    let ?v' = "v\<lparr>metadata_json := Some (JSON_stringify meta), v_rotation_raw := rotation_raw meta\<rparr>"
    have r: "getDurationSeconds w vid = (Inr d, ?w')"
      using getDurationSeconds_probe [OF assms n m] ds pos by simp
    have g: "getVideo ?w' vid = Inr ?v'" by (rule getVideo_after_save(2) [OF assms])
    have cd: "cachedDuration ?v' = Some d"
      using ds pos by (simp add: cachedDuration_stringify)
    have "getDurationSeconds ?w' vid = (Inr d, ?w')" by (rule hit [OF g cd])
    with r g cd show "\<exists>w'. getDurationSeconds w vid = (Inr d, w')
                   \<and> (\<exists>v'. getVideo w' vid = Inr v' \<and> cachedDuration v' = Some d)
                   \<and> getDurationSeconds w' vid = (Inr d, w')" by blast
  qed
  show ?thesis using a b c d by blast
qed

theorem duration_unknown_after_persist_witness:
  "getVideo (worldWith freshVideo reportWithoutDuration) ''v1'' = Inr freshVideo
   \<and> cachedDuration freshVideo = None
   \<and> extractVideoMetadata (files (worldWith freshVideo reportWithoutDuration))
         (original_path freshVideo) = Inr (metaOf None)
   \<and> (\<exists>w'. getDurationSeconds (worldWith freshVideo reportWithoutDuration) ''v1''
               = (Inl DurationUnknown, w')
           \<and> getVideo w' ''v1''
               = Inr (freshVideo\<lparr>metadata_json := Some (Document JNull),
                                 v_rotation_raw := Some ''90''\<rparr>)
           \<and> getVideo w' ''v1'' \<noteq> getVideo (worldWith freshVideo reportWithoutDuration) ''v1'')"
proof -
  have h1: "getVideo (worldWith freshVideo reportWithoutDuration) ''v1'' = Inr freshVideo"
    by (simp add: getVideo_def worldWith_def freshVideo_def)
  have h2: "cachedDuration freshVideo = None"
    by (simp add: cachedDuration_def freshVideo_def)
  have h3: "extractVideoMetadata (files (worldWith freshVideo reportWithoutDuration))
         (original_path freshVideo) = Inr (metaOf None)"
    by code_simp
  have j: "JSON_stringify (metaOf None) = Document JNull" "rotation_raw (metaOf None) = Some ''90''"
    "duration_seconds (metaOf None) = None"
    by (simp_all add: JSON_stringify_def metaOf_def)
  from duration_unknown_after_persist [OF h1 h2 h3]
  obtain r w' where "getDurationSeconds (worldWith freshVideo reportWithoutDuration) ''v1'' = (r, w')"
    "getVideo w' ''v1'' = Inr (freshVideo\<lparr>metadata_json := Some (Document JNull),
                                 v_rotation_raw := Some ''90''\<rparr>)"
    "r = Inl DurationUnknown"
    unfolding j by blast
  moreover have "freshVideo\<lparr>metadata_json := Some (Document JNull), v_rotation_raw := Some ''90''\<rparr>
                 \<noteq> freshVideo"
    by (simp add: freshVideo_def)
  ultimately show ?thesis using h1 h2 h3 by auto
qed

theorem duration_resolver_witness:
  "getVideo (worldWith freshVideo reportWithDuration) ''v1'' = Inr freshVideo
   \<and> cachedDuration freshVideo = None
   \<and> extractVideoMetadata (files (worldWith freshVideo reportWithDuration))
         (original_path freshVideo) = Inr (metaOf (Some 250))
   \<and> (\<exists>w'. getDurationSeconds (worldWith freshVideo reportWithDuration) ''v1'' = (Inr 250, w')
           \<and> getDurationSeconds w' ''v1'' = (Inr 250, w'))"
proof -
  have h1: "getVideo (worldWith freshVideo reportWithDuration) ''v1'' = Inr freshVideo"
    by (simp add: getVideo_def worldWith_def freshVideo_def)
  have h2: "cachedDuration freshVideo = None"
    by (simp add: cachedDuration_def freshVideo_def)
  have h3: "extractVideoMetadata (files (worldWith freshVideo reportWithDuration))
         (original_path freshVideo) = Inr (metaOf (Some 250))"
    by code_simp
  have h4: "duration_seconds (metaOf (Some 250)) = Some 250" by (simp add: metaOf_def)
  from duration_resolver [OF h1]
  have "\<forall>meta d. cachedDuration freshVideo = None
             \<and> extractVideoMetadata (files (worldWith freshVideo reportWithDuration))
                   (original_path freshVideo) = Inr meta
             \<and> duration_seconds meta = Some d \<and> 0 < d \<longrightarrow>
             (\<exists>w'. getDurationSeconds (worldWith freshVideo reportWithDuration) ''v1'' = (Inr d, w')
                   \<and> (\<exists>v'. getVideo w' ''v1'' = Inr v' \<and> cachedDuration v' = Some d)
                   \<and> getDurationSeconds w' ''v1'' = (Inr d, w'))"
    by blast
  then have "cachedDuration freshVideo = None
             \<and> extractVideoMetadata (files (worldWith freshVideo reportWithDuration))
                   (original_path freshVideo) = Inr (metaOf (Some 250))
             \<and> duration_seconds (metaOf (Some 250)) = Some 250 \<and> (0::real) < 250 \<longrightarrow>
             (\<exists>w'. getDurationSeconds (worldWith freshVideo reportWithDuration) ''v1'' = (Inr 250, w')
                   \<and> (\<exists>v'. getVideo w' ''v1'' = Inr v' \<and> cachedDuration v' = Some 250)
                   \<and> getDurationSeconds w' ''v1'' = (Inr 250, w'))"
    by blast
  with h2 h3 h4
  have "\<exists>w'. getDurationSeconds (worldWith freshVideo reportWithDuration) ''v1'' = (Inr 250, w')
           \<and> (\<exists>v'. getVideo w' ''v1'' = Inr v' \<and> cachedDuration v' = Some 250)
           \<and> getDurationSeconds w' ''v1'' = (Inr 250, w')"
    by simp
  then show ?thesis using h1 h2 h3 by blast
qed

section \<open>Properties of the segmenter\<close>

lemma find_Some_member: "List.find P xs = Some x \<Longrightarrow> x \<in> set xs \<and> P x"
  by (induction xs) (auto split: if_splits)

lemma getVideo_exists: "getVideo w vid = Inr v \<Longrightarrow> videoExists w vid"
  by (auto simp: getVideo_def videoExists_def list_ex_iff split: option.splits
           dest: find_Some_member)

lemma setClipJobState_ok:
  "videoExists w vid \<Longrightarrow>
   setClipJobState w vid st msg code =
     Inr (w\<lparr>clip_jobs := (clip_jobs w)(vid \<mapsto>
            \<lparr>state = st, last_stderr = msg, last_exit_code = code, updated_at = Iso (now w)\<rparr>)\<rparr>)"
  by (simp add: setClipJobState_def nowIso_def)



lemma getVideo_after_error:
  assumes "getVideo w vid = Inr v"
  shows "setVideoError w vid msg =
           Inr (w\<lparr>videos := updateRows (\<lambda>r. video_id r = vid)
                   (\<lambda>r. r\<lparr>error_message := msg\<rparr>) (videos w)\<rparr>)"
    and "getVideo (w\<lparr>videos := updateRows (\<lambda>r. video_id r = vid)
                   (\<lambda>r. r\<lparr>error_message := msg\<rparr>) (videos w)\<rparr>) vid
           = Inr (v\<lparr>error_message := msg\<rparr>)"
proof -
  have f: "List.find (\<lambda>r. video_id r = vid) (videos w) = Some v"
    using assms by (simp add: getVideo_def split: option.splits)
  show g: "getVideo (w\<lparr>videos := updateRows (\<lambda>r. video_id r = vid)
                   (\<lambda>r. r\<lparr>error_message := msg\<rparr>) (videos w)\<rparr>) vid
           = Inr (v\<lparr>error_message := msg\<rparr>)"
    by (simp add: getVideo_def find_updateRows f)
  show "setVideoError w vid msg =
           Inr (w\<lparr>videos := updateRows (\<lambda>r. video_id r = vid)
                   (\<lambda>r. r\<lparr>error_message := msg\<rparr>) (videos w)\<rparr>)"
    using g by (simp add: setVideoError_def Let_def)
qed

lemma getVideo_cong:
  "videos w' = videos w \<Longrightarrow> getVideo w' vid = getVideo w vid"
  by (simp add: getVideo_def)

lemma videoExists_cong:
  "videos w' = videos w \<Longrightarrow> videoExists w' vid = videoExists w vid"
  by (simp add: videoExists_def)

lemma listClips_cong:
  "clips w' = clips w \<Longrightarrow> listClips w' vid = listClips w vid"
  by (simp add: listClips_def)

lemma listClips_set:
  "set (listClips w vid) = {r \<in> set (clips w). c_video_id r = vid}"
  by (auto simp: listClips_def)

lemma find_row:
  assumes "r \<in> set (clips w)" and "c_video_id r = vid" and "clip_index r = i"
  shows "\<exists>row. List.find (\<lambda>r. clip_index r = i) (listClips w vid) = Some row"
proof (cases "List.find (\<lambda>r. clip_index r = i) (listClips w vid)")
  case None
  then have "\<forall>x \<in> set (listClips w vid). clip_index x \<noteq> i"
    by (simp add: find_None_iff)
  then show ?thesis using assms by (simp add: listClips_set)
qed simp

text \<open>A listing in which no file is both named like a clip and complete is passed over.\<close>

lemma backfillLoop_idle:
  assumes "\<forall>f \<in> set names. parseClipIndex f \<noteq> None \<longrightarrow> \<not> fileLooksComplete (files w) (path_join dir f)"
  shows "backfillLoop vid dir names scanned upserted w = (Inr (scanned, upserted), w)"
  using assms
proof (induction names)
  case Nil
  then show ?case by simp
next
  case (Cons f names)
  then have ih: "backfillLoop vid dir names scanned upserted w = (Inr (scanned, upserted), w)"
    by simp
  show ?case
  proof (cases "parseClipIndex f")
    case None
    then show ?thesis using ih by simp
  next
    case (Some idx)
    then have "\<not> fileLooksComplete (files w) (path_join dir f)" using Cons.prems by simp
    then show ?thesis using ih Some
      by (auto simp: fileLooksComplete_def Let_def split: option.splits)
  qed
qed

lemma driftRepair_idle:
  assumes "\<forall>f \<in> set (readdirSync (files w) (getClipsDir vid)). \<forall>idx.
             parseClipIndex f = Some idx \<and> fileLooksComplete (files w) (path_join (getClipsDir vid) f)
             \<longrightarrow> (\<exists>r \<in> set (clips w). c_video_id r = vid \<and> clip_index r = idx)"
  shows "driftRepair w vid = (Inr (listClips w vid), w)"
proof (cases "listClips w vid = []")
  case False
  then show ?thesis by (simp add: driftRepair_def)
next
  case True
  then have none: "\<forall>r \<in> set (clips w). c_video_id r \<noteq> vid"
    using listClips_set [of w vid] by auto
  have "\<forall>f \<in> set (readdirSync (files w) (getClipsDir vid)).
          parseClipIndex f \<noteq> None \<longrightarrow> \<not> fileLooksComplete (files w) (path_join (getClipsDir vid) f)"
    using assms none by fastforce
  then have "backfillClipMetadata w vid = (Inr (0, 0), w)"
    unfolding backfillClipMetadata_def by (rule backfillLoop_idle)
  then show ?thesis using True by (simp add: driftRepair_def)
qed

text \<open>A loop over indices whose segments are all either negligible or present on disk and
  in the rows read before the loop does nothing but finish the job.\<close>

lemma segLoop_all_present:
  assumes "getVideo w vid = Inr latest" and "status latest = Approved"
    and "\<forall>i \<in> set indices. 1 / 100 < segmentLen duration i \<longrightarrow>
           fileLooksComplete (files w) (clipPath vid i)
           \<and> (\<exists>row. List.find (\<lambda>r. clip_index r = i) existingRows = Some row)"
  shows "segLoop ff vid v duration ntotal existingRows indices w = finishJob vid w"
  using assms(3)
proof (induction indices)
  case Nil
  then show ?case by simp
next
  case (Cons i rest)
  then have ih: "segLoop ff vid v duration ntotal existingRows rest w = finishJob vid w"
    by simp
  show ?case
  proof (cases "segmentLen duration i \<le> 1 / 100")
    case True
    then show ?thesis using assms(1,2) by simp
  next
    case False
    then have "fileLooksComplete (files w) (clipPath vid i)"
      and "\<exists>row. List.find (\<lambda>r. clip_index r = i) existingRows = Some row"
      using Cons.prems by auto
    then show ?thesis using assms(1,2) False ih by auto
  qed
qed

text \<open>
  Claim C2. Take a state in which the video is Approved with a stored duration and is not
  being processed, every planned segment (index below the segment count, length above the
  negligible threshold) has a clip file that looks complete and a row in the store, and every
  complete file in the clips directory with a clip name has its row. A run from such a state,
  with any transcoder, completes without a single transcoder call; clip rows and files are
  exactly as before, and the job is Done with exit code 0. The state after a first run that
  nothing has touched is such a state.
\<close>

theorem second_run_is_idle:
  assumes "vid \<notin> activeJobs w"
    and "getVideo w vid = Inr v" and "status v = Approved"
    and "cachedDuration v = Some D"
    and "\<forall>i < segmentTotal D. 1 / 100 < segmentLen D i \<longrightarrow>
           fileLooksComplete (files w) (clipPath vid i)
           \<and> (\<exists>r \<in> set (clips w). c_video_id r = vid \<and> clip_index r = i)"
    and "\<forall>f \<in> set (readdirSync (files w) (getClipsDir vid)). \<forall>idx.
           parseClipIndex f = Some idx \<and> fileLooksComplete (files w) (path_join (getClipsDir vid) f)
           \<longrightarrow> (\<exists>r \<in> set (clips w). c_video_id r = vid \<and> clip_index r = idx)"
  shows "\<exists>w'. generateClipsForVideo ff vid w = (Completed, w')
           \<and> calls w' = calls w \<and> clips w' = clips w \<and> files w' = files w
           \<and> clip_jobs w' vid = Some \<lparr>state = Done, last_stderr = None,
                                       last_exit_code = Some 0, updated_at = Iso (now w)\<rparr>
           \<and> activeJobs w' = activeJobs w"
proof -
  define w0 where "w0 = w\<lparr>activeJobs := insert vid (activeJobs w)\<rparr>"
  define w1 where "w1 = w0\<lparr>videos := updateRows (\<lambda>r. video_id r = vid)
                   (\<lambda>r. r\<lparr>error_message := None\<rparr>) (videos w0)\<rparr>"
  define w2 where "w2 = w1\<lparr>clip_jobs := (clip_jobs w1)(vid \<mapsto>
            \<lparr>state = Generating, last_stderr = None, last_exit_code = None, updated_at = Iso (now w1)\<rparr>)\<rparr>"
  define w3 where "w3 = w2\<lparr>clip_jobs := (clip_jobs w2)(vid \<mapsto>
            \<lparr>state = Done, last_stderr = None, last_exit_code = Some 0, updated_at = Iso (now w2)\<rparr>)\<rparr>"
  have g0: "getVideo w0 vid = Inr v" using assms(2) by (simp add: w0_def getVideo_def)
  have e1: "setVideoError w0 vid None = Inr w1"
    unfolding w1_def by (rule getVideo_after_error(1) [OF g0])
  have g1: "getVideo w1 vid = Inr (v\<lparr>error_message := None\<rparr>)"
    unfolding w1_def by (rule getVideo_after_error(2) [OF g0])
  have j2: "setClipJobState w1 vid Generating None None = Inr w2"
    unfolding w2_def by (rule setClipJobState_ok [OF getVideo_exists [OF g1]])
  have same: "files w2 = files w" "clips w2 = clips w" "calls w2 = calls w" "now w2 = now w"
    "videos w2 = videos w1" "activeJobs w2 = insert vid (activeJobs w)"
    by (simp_all add: w2_def w1_def w0_def)
  have g2: "getVideo w2 vid = Inr (v\<lparr>error_message := None\<rparr>)"
    using g1 getVideo_cong [OF same(5)] by simp
  have lc: "listClips w2 vid = listClips w vid" by (rule listClips_cong [OF same(2)])
  have d2: "driftRepair w2 vid = (Inr (listClips w vid), w2)"
    using driftRepair_idle [of w2 vid] assms(6) by (simp add: same lc)
  have c2: "cachedDuration (v\<lparr>error_message := None\<rparr>) = Some D"
    using assms(4) by (simp add: cachedDuration_def)
  have du: "getDurationSeconds w2 vid = (Inr D, w2)"
    using g2 c2 by (simp add: getDurationSeconds_def)
  have present: "\<forall>i \<in> set [0..<segmentTotal D]. 1 / 100 < segmentLen D i \<longrightarrow>
           fileLooksComplete (files w2) (clipPath vid i)
           \<and> (\<exists>row. List.find (\<lambda>r. clip_index r = i) (listClips w vid) = Some row)"
    using assms(5) find_row [of _ w vid] by (auto simp: same)
  have loop: "segLoop ff vid v D (segmentTotal D) (listClips w vid) [0..<segmentTotal D] w2
                = finishJob vid w2"
    by (rule segLoop_all_present [OF g2 _ present]) (simp add: assms(3))
  have fin: "finishJob vid w2 = (Completed, w3)"
    unfolding w3_def finishJob_def
    by (simp add: setClipJobState_ok [OF getVideo_exists [OF g2]])
  have body: "runBody ff vid w0 = (Completed, w3)"
    using g0 assms(3) e1 j2 d2 du loop fin by (simp add: runBody_def)
  have res: "generateClipsForVideo ff vid w
               = (Completed, w3\<lparr>activeJobs := activeJobs w3 - {vid}\<rparr>)"
    using assms(1) body by (simp add: generateClipsForVideo_def Let_def w0_def)
  have "activeJobs w3 - {vid} = activeJobs w"
    using assms(1) by (auto simp: w3_def same)
  then show ?thesis
    unfolding res by (simp add: w3_def same)
qed

theorem second_run_is_idle_witness:
  "fst (generateClipsForVideo writingFfmpeg ''v1'' (emptyWorld (cachedVideo 250))) = Completed
   \<and> map arg_out (calls afterFirstRun) = [clipPath ''v1'' 0, clipPath ''v1'' 1, clipPath ''v1'' 2]
   \<and> ''v1'' \<notin> activeJobs afterFirstRun
   \<and> getVideo afterFirstRun ''v1'' = Inr (cachedVideo 250)
   \<and> status (cachedVideo 250) = Approved
   \<and> cachedDuration (cachedVideo 250) = Some 250
   \<and> (\<exists>w'. generateClipsForVideo rejectedMeanwhile ''v1'' afterFirstRun = (Completed, w')
          \<and> calls w' = calls afterFirstRun \<and> clips w' = clips afterFirstRun
          \<and> files w' = files afterFirstRun)"
proof -
  have first: "fst (generateClipsForVideo writingFfmpeg ''v1'' (emptyWorld (cachedVideo 250))) = Completed"
    by code_simp
  have cs: "map arg_out (calls afterFirstRun) = [clipPath ''v1'' 0, clipPath ''v1'' 1, clipPath ''v1'' 2]"
    by code_simp
  have h1: "''v1'' \<notin> activeJobs afterFirstRun" by code_simp
  have h2: "getVideo afterFirstRun ''v1'' = Inr (cachedVideo 250)" by code_simp
  have h3: "status (cachedVideo 250) = Approved" by (simp add: cachedVideo_def freshVideo_def)
  have h4: "cachedDuration (cachedVideo 250) = Some 250"
    by (simp add: cachedVideo_def cachedDuration_def toNumber_def)
  have n: "segmentTotal 250 = 3" by (simp add: segmentTotal_def CLIP_LEN_SECONDS_def)
  have p: "fileLooksComplete (files afterFirstRun) (clipPath ''v1'' 0)"
    "fileLooksComplete (files afterFirstRun) (clipPath ''v1'' 1)"
    "fileLooksComplete (files afterFirstRun) (clipPath ''v1'' 2)"
    by code_simp+
  have r: "map (\<lambda>r. (c_video_id r, clip_index r)) (clips afterFirstRun)
             = [(''v1'', 0), (''v1'', 1), (''v1'', 2)]"
    by code_simp
  have rows: "\<And>i. i < 3 \<Longrightarrow> \<exists>r \<in> set (clips afterFirstRun). c_video_id r = ''v1'' \<and> clip_index r = i"
  proof -
    fix i :: nat assume "i < 3"
    then have "(''v1'', i) \<in> set (map (\<lambda>r. (c_video_id r, clip_index r)) (clips afterFirstRun))"
      unfolding r by auto
    then show "\<exists>r \<in> set (clips afterFirstRun). c_video_id r = ''v1'' \<and> clip_index r = i"
      by auto
  qed
  have h5: "\<forall>i < segmentTotal 250. 1 / 100 < segmentLen 250 i \<longrightarrow>
           fileLooksComplete (files afterFirstRun) (clipPath ''v1'' i)
           \<and> (\<exists>r \<in> set (clips afterFirstRun). c_video_id r = ''v1'' \<and> clip_index r = i)"
  proof (intro allI impI)
    fix i assume "i < segmentTotal 250"
    then have i3: "i < 3" by (simp add: n)
    then have "i = 0 \<or> i = 1 \<or> i = 2" by arith
    then have "fileLooksComplete (files afterFirstRun) (clipPath ''v1'' i)" using p by blast
    then show "fileLooksComplete (files afterFirstRun) (clipPath ''v1'' i)
           \<and> (\<exists>r \<in> set (clips afterFirstRun). c_video_id r = ''v1'' \<and> clip_index r = i)"
      using rows [OF i3] by blast
  qed
  have dir: "readdirSync (files afterFirstRun) (getClipsDir ''v1'')
               = [''clip_002.mp4'', ''clip_001.mp4'', ''clip_000.mp4'']"
    by code_simp
  have idx: "parseClipIndex ''clip_002.mp4'' = Some 2" "parseClipIndex ''clip_001.mp4'' = Some 1"
    "parseClipIndex ''clip_000.mp4'' = Some 0"
    by code_simp+
  have h6: "\<forall>f \<in> set (readdirSync (files afterFirstRun) (getClipsDir ''v1'')). \<forall>idx.
           parseClipIndex f = Some idx \<and> fileLooksComplete (files afterFirstRun) (path_join (getClipsDir ''v1'') f)
           \<longrightarrow> (\<exists>r \<in> set (clips afterFirstRun). c_video_id r = ''v1'' \<and> clip_index r = idx)"
    unfolding dir using rows by (auto simp: idx)
  from second_run_is_idle [OF h1 h2 h3 h4 h5 h6, of rejectedMeanwhile]
  show ?thesis using first cs h1 h2 h3 h4 by blast
qed























section \<open>Properties of the backfill scanner\<close>

lemma upsertClip_result:
  assumes "videoExists w (c_video_id input)"
  shows "\<exists>w'. upsertClip w input = Inr w' \<and> files w' = files w \<and> videos w' = videos w
              \<and> (\<exists>r \<in> set (clips w'). sameClip (c_video_id input) (clip_index input) r)
              \<and> (\<forall>a b. (\<exists>r \<in> set (clips w). sameClip a b r)
                       \<longrightarrow> (\<exists>r \<in> set (clips w'). sameClip a b r))"
proof (cases "list_ex (sameClip (c_video_id input) (clip_index input)) (clips w)")
  case True
  define g where "g = (\<lambda>r. if sameClip (c_video_id input) (clip_index input) r
                         then r\<lparr>path := path input, c_duration := c_duration input,
                           c_fps := c_fps input, c_width := c_width input,
                           c_height := c_height input,
                           c_file_size_bytes := c_file_size_bytes input\<rparr>
                         else r)"
  have keep: "\<And>a b r. sameClip a b (g r) = sameClip a b r" by (simp add: sameClip_def g_def)
  have u: "upsertClip w input = Inr (w\<lparr>clips := map g (clips w)\<rparr>)"
    using True by (simp add: upsertClip_def updateRows_def g_def)
  have pres: "\<And>a b. (\<exists>r \<in> set (clips w). sameClip a b r) \<Longrightarrow>
          (\<exists>r \<in> set (map g (clips w)). sameClip a b r)"
  proof -
    fix a b assume "\<exists>r \<in> set (clips w). sameClip a b r"
    then obtain r where "r \<in> set (clips w)" "sameClip a b r" by blast
    then have "g r \<in> set (map g (clips w))" "sameClip a b (g r)" by (simp_all add: keep)
    then show "\<exists>r \<in> set (map g (clips w)). sameClip a b r" by blast
  qed
  have "\<exists>r \<in> set (clips w). sameClip (c_video_id input) (clip_index input) r"
    using True by (simp add: list_ex_iff)
  then have "\<exists>r \<in> set (map g (clips w)). sameClip (c_video_id input) (clip_index input) r"
    by (rule pres)
  then show ?thesis using u pres by simp
next
  case False
  then have u: "upsertClip w input = Inr (w\<lparr>clips := clips w @ [input]\<rparr>)"
    using assms by (simp add: upsertClip_def)
  have "sameClip (c_video_id input) (clip_index input) input" by (simp add: sameClip_def)
  then show ?thesis using u by auto
qed

text \<open>
  What the scan does when the metadata extraction succeeds on every file it takes up: it
  returns, both counters have grown by the number of these files, the file system is as it
  was, every row that existed still has a row under its key, and every file taken up has a
  row under the video and its parsed index. Files that are not taken up (another name, a
  failing \<^verbatim>\<open>statSync\<close>, no regular file, at most 1024 bytes) are passed over.
\<close>

lemma backfill_when_probes_succeed:
  assumes "videoExists w vid"
    and "\<forall>f \<in> set names. eligible (files w) dir f \<longrightarrow>
           (\<exists>m. extractVideoMetadata (files w) (path_join dir f) = Inr m)"
  shows "\<exists>w'. backfillLoop vid dir names scanned upserted w
                = (Inr (scanned + length (filter (eligible (files w) dir) names),
                        upserted + length (filter (eligible (files w) dir) names)), w')
              \<and> files w' = files w \<and> videos w' = videos w
              \<and> (\<forall>a b. (\<exists>r \<in> set (clips w). sameClip a b r)
                       \<longrightarrow> (\<exists>r \<in> set (clips w'). sameClip a b r))
              \<and> (\<forall>f idx. f \<in> set names \<and> eligible (files w) dir f \<and> parseClipIndex f = Some idx
                       \<longrightarrow> (\<exists>r \<in> set (clips w'). sameClip vid idx r))"
  using assms
proof (induction names arbitrary: w scanned upserted)
  case Nil
  then show ?case by simp
next
  case (Cons f names)
  show ?case
  proof (cases "eligible (files w) dir f")
    case False
    then have skip: "backfillLoop vid dir (f # names) scanned upserted w
                 = backfillLoop vid dir names scanned upserted w"
      by (auto simp: eligible_def fileLooksComplete_def Let_def split: option.splits)
    from Cons.IH [of w scanned upserted] Cons.prems
    obtain w' where "backfillLoop vid dir names scanned upserted w
                = (Inr (scanned + length (filter (eligible (files w) dir) names),
                        upserted + length (filter (eligible (files w) dir) names)), w')"
      "files w' = files w" "videos w' = videos w"
      "\<forall>a b. (\<exists>r \<in> set (clips w). sameClip a b r) \<longrightarrow> (\<exists>r \<in> set (clips w'). sameClip a b r)"
      "\<forall>f idx. f \<in> set names \<and> eligible (files w) dir f \<and> parseClipIndex f = Some idx
                       \<longrightarrow> (\<exists>r \<in> set (clips w'). sameClip vid idx r)"
      by auto
    then show ?thesis unfolding skip using False by (simp, blast)
  next
    case True
    then obtain idx st where idx: "parseClipIndex f = Some idx"
      and st: "statSync (files w) (path_join dir f) = Some st" "isFile st" "1024 < size st"
      by (auto simp: eligible_def fileLooksComplete_def split: option.splits)
    obtain m where m: "extractVideoMetadata (files w) (path_join dir f) = Inr m"
      using Cons.prems(2) True by auto
    let ?row = "\<lparr>clip_id = makeClipId vid idx, c_video_id = vid, clip_index = idx,
                 path = path_join dir f, c_duration = duration_seconds m,
                 c_fps = fps m, c_width = width m, c_height = height m,
                 c_file_size_bytes = Some (of_int (size st))\<rparr>"
    from upsertClip_result [of w ?row] Cons.prems(1)
    obtain w1 where u: "upsertClip w ?row = Inr w1" and f1: "files w1 = files w"
      and v1: "videos w1 = videos w"
      and new: "\<exists>r \<in> set (clips w1). sameClip vid idx r"
      and keep: "\<forall>a b. (\<exists>r \<in> set (clips w). sameClip a b r)
                       \<longrightarrow> (\<exists>r \<in> set (clips w1). sameClip a b r)"
      by auto
    have step: "backfillLoop vid dir (f # names) scanned upserted w
                 = backfillLoop vid dir names (Suc scanned) (Suc upserted) w1"
      using idx st m u by (simp add: Let_def)
    have ve1: "videoExists w1 vid" using Cons.prems(1) videoExists_cong [OF v1] by simp
    have ok1: "\<forall>f \<in> set names. eligible (files w1) dir f \<longrightarrow>
           (\<exists>m. extractVideoMetadata (files w1) (path_join dir f) = Inr m)"
      using Cons.prems(2) by (simp add: f1)
    from Cons.IH [OF ve1 ok1, of "Suc scanned" "Suc upserted"]
    obtain w' where r: "backfillLoop vid dir names (Suc scanned) (Suc upserted) w1
                = (Inr (Suc scanned + length (filter (eligible (files w1) dir) names),
                        Suc upserted + length (filter (eligible (files w1) dir) names)), w')"
      and f': "files w' = files w1" and v': "videos w' = videos w1"
      and keep': "\<forall>a b. (\<exists>r \<in> set (clips w1). sameClip a b r)
                       \<longrightarrow> (\<exists>r \<in> set (clips w'). sameClip a b r)"
      and rows': "\<forall>f idx. f \<in> set names \<and> eligible (files w1) dir f \<and> parseClipIndex f = Some idx
                       \<longrightarrow> (\<exists>r \<in> set (clips w'). sameClip vid idx r)"
      by blast
    have head: "\<exists>r \<in> set (clips w'). sameClip vid idx r" using new keep' by blast
    have cnt: "length (filter (eligible (files w) dir) (f # names))
                 = Suc (length (filter (eligible (files w) dir) names))"
      using True by simp
    have res: "backfillLoop vid dir (f # names) scanned upserted w
                = (Inr (scanned + length (filter (eligible (files w) dir) (f # names)),
                        upserted + length (filter (eligible (files w) dir) (f # names))), w')"
      unfolding step r cnt by (simp add: f1)
    have k: "\<forall>a b. (\<exists>r \<in> set (clips w). sameClip a b r)
                       \<longrightarrow> (\<exists>r \<in> set (clips w'). sameClip a b r)"
      using keep keep' by blast
    have rows: "\<forall>g j. g \<in> set (f # names) \<and> eligible (files w) dir g \<and> parseClipIndex g = Some j
                       \<longrightarrow> (\<exists>r \<in> set (clips w'). sameClip vid j r)"
    proof (intro allI impI, elim conjE)
      fix g j assume g: "g \<in> set (f # names)" "eligible (files w) dir g" "parseClipIndex g = Some j"
      show "\<exists>r \<in> set (clips w'). sameClip vid j r"
      proof (cases "g = f")
        case True
        then show ?thesis using head idx g(3) by simp
      next
        case False
        then have "g \<in> set names" using g(1) by simp
        then show ?thesis using rows' g(2,3) by (simp add: f1)
      qed
    qed
    have "files w' = files w" "videos w' = videos w" using f' v' f1 v1 by simp_all
    then show ?thesis using res k rows by blast
  qed
qed

text \<open>
  Claim C5 says that the scan passes over a file it cannot read and goes on. That holds for
  a file on which \<^verbatim>\<open>statSync\<close> fails, and it fails for a file on which the prober fails:
  with \<^verbatim>\<open>clip_000.mp4\<close> a regular file of 5000 bytes that the prober rejects and
  \<^verbatim>\<open>clip_001.mp4\<close> a good clip, the scan ends with the error of the prober and the good
  clip gets no row, while with \<^verbatim>\<open>clip_000.mp4\<close> a dangling link the scan returns the
  counts (1, 1) and the row of index 1, and without any clips directory it returns (0, 0).
  A segmenter run on the first state ends with the same exception and leaves the job
  Generating.
\<close>

theorem backfill_aborts_on_probe_failure:
  "readdirSync (files (clipsOnDisk (RegularFile 5000 None))) (getClipsDir ''v1'')
     = [''clip_000.mp4'', ''clip_001.mp4'']
   \<and> fst (backfillClipMetadata (clipsOnDisk (RegularFile 5000 None)) ''v1'') = Inl FfprobeFailed
   \<and> clips (snd (backfillClipMetadata (clipsOnDisk (RegularFile 5000 None)) ''v1'')) = []
   \<and> fst (backfillClipMetadata (clipsOnDisk Dangling) ''v1'') = Inr (1, 1)
   \<and> map clip_index (clips (snd (backfillClipMetadata (clipsOnDisk Dangling) ''v1''))) = [1]
   \<and> fst (backfillClipMetadata (emptyWorld (cachedVideo 250)) ''v1'') = Inr (0, 0)
   \<and> fst (generateClipsForVideo writingFfmpeg ''v1'' (clipsOnDisk (RegularFile 5000 None)))
       = Threw FfprobeFailed
   \<and> map_option state
         (clip_jobs (snd (generateClipsForVideo writingFfmpeg ''v1''
                            (clipsOnDisk (RegularFile 5000 None)))) ''v1'') = Some Generating"
  by code_simp

section \<open>The guard on running jobs\<close>

lemma second_call_skipped:
  "vid \<in> activeJobs w \<Longrightarrow> withSecondCall ff ff2 vid args w = ff args w"
  by (simp add: withSecondCall_def generateClipsForVideo_def)

lemma setClipJobState_active:
  "setClipJobState w vid st msg code = Inr w' \<Longrightarrow> activeJobs w' = activeJobs w"
  by (auto simp: setClipJobState_def split: if_splits)

lemma upsertClip_active:
  "upsertClip w row = Inr w' \<Longrightarrow> activeJobs w' = activeJobs w"
  by (auto simp: upsertClip_def split: if_splits)

lemma segLoop_second_call:
  assumes keep: "keepsRunning ff vid"
  shows "vid \<in> activeJobs w \<Longrightarrow>
         segLoop (withSecondCall ff ff2 vid) vid v D N rows indices w = segLoop ff vid v D N rows indices w"
proof (induction indices arbitrary: w)
  case Nil
  then show ?case by simp
next
  case (Cons i rest)
  note ih = Cons.IH
  let ?w1 = "w\<lparr>files := safeUnlink (files w) (clipPath vid i)\<rparr>"
  let ?args = "\<lparr>arg_ss = segmentStart i, arg_i = original_path v,
                 arg_t = segmentLen D i, arg_out = clipPath vid i\<rparr>"
  have a1: "vid \<in> activeJobs ?w1" using Cons.prems by simp
  have same: "withSecondCall ff ff2 vid ?args ?w1 = ff ?args ?w1"
    by (rule second_call_skipped [OF a1])
  have a2: "vid \<in> activeJobs (snd (ff ?args ?w1))"
    using keep a1 unfolding keepsRunning_def by blast
  have skip: "\<And>w'. upsertClip w row = Inr w' \<Longrightarrow>
                segLoop (withSecondCall ff ff2 vid) vid v D N rows rest w'
                = segLoop ff vid v D N rows rest w'" for row
    using ih upsertClip_active Cons.prems by simp
  have go: "\<And>w3 w4 row. upsertClip ((snd (ff ?args ?w1))\<lparr>calls := calls ?w1 @ [?args]\<rparr>) row = Inr w3
               \<Longrightarrow> setClipJobState w3 vid Generating None None = Inr w4
               \<Longrightarrow> segLoop (withSecondCall ff ff2 vid) vid v D N rows rest w4
                   = segLoop ff vid v D N rows rest w4"
  proof -
    fix w3 w4 row
    assume u: "upsertClip ((snd (ff ?args ?w1))\<lparr>calls := calls ?w1 @ [?args]\<rparr>) row = Inr w3"
      and j: "setClipJobState w3 vid Generating None None = Inr w4"
    have "activeJobs w4 = activeJobs (snd (ff ?args ?w1))"
      using upsertClip_active [OF u] setClipJobState_active [OF j] by simp
    then show "segLoop (withSecondCall ff ff2 vid) vid v D N rows rest w4
                   = segLoop ff vid v D N rows rest w4"
      using ih a2 by simp
  qed
  show ?case
    by (simp add: same Let_def ih [OF Cons.prems] skip go
             split: sum.splits option.splits)
qed


lemma setVideoError_active:
  "setVideoError w vid msg = Inr w' \<Longrightarrow> activeJobs w' = activeJobs w"
  by (auto simp: setVideoError_def Let_def split: sum.splits)

lemma saveVideoMetadata_active:
  "saveVideoMetadata w vid mj rot = Inr w' \<Longrightarrow> activeJobs w' = activeJobs w"
  by (auto simp: saveVideoMetadata_def Let_def split: sum.splits)

lemma backfillLoop_active:
  "backfillLoop vid dir names scanned upserted w = (r, w') \<Longrightarrow> activeJobs w' = activeJobs w"
proof (induction names arbitrary: w scanned upserted)
  case Nil
  then show ?case by simp
next
  case (Cons f names)
  then show ?case
    by (auto simp: Let_def split: option.splits sum.splits if_splits dest: upsertClip_active)
qed

lemma driftRepair_active:
  "driftRepair w vid = (r, w') \<Longrightarrow> activeJobs w' = activeJobs w"
  by (auto simp: driftRepair_def backfillClipMetadata_def
           split: if_splits prod.splits sum.splits dest: backfillLoop_active)

lemma getDurationSeconds_active:
  "getDurationSeconds w vid = (r, w') \<Longrightarrow> activeJobs w' = activeJobs w"
  by (auto simp: getDurationSeconds_def split: sum.splits option.splits if_splits
           dest: saveVideoMetadata_active)

lemma runBody_second_call:
  assumes keep: "keepsRunning ff vid" and act: "vid \<in> activeJobs w"
  shows "runBody (withSecondCall ff ff2 vid) vid w = runBody ff vid w"
proof -
  have loop: "\<And>w1 w2 w3 w4 v D rows.
      setVideoError w vid None = Inr w1 \<Longrightarrow> setClipJobState w1 vid Generating None None = Inr w2
      \<Longrightarrow> driftRepair w2 vid = (Inr rows, w3) \<Longrightarrow> getDurationSeconds w3 vid = (Inr D, w4)
      \<Longrightarrow> segLoop (withSecondCall ff ff2 vid) vid v D (segmentTotal D) rows [0..<segmentTotal D] w4
          = segLoop ff vid v D (segmentTotal D) rows [0..<segmentTotal D] w4"
  proof -
    fix w1 w2 w3 w4 v D rows
    assume "setVideoError w vid None = Inr w1" "setClipJobState w1 vid Generating None None = Inr w2"
      "driftRepair w2 vid = (Inr rows, w3)" "getDurationSeconds w3 vid = (Inr D, w4)"
    then have "activeJobs w4 = activeJobs w"
      using setVideoError_active setClipJobState_active driftRepair_active getDurationSeconds_active
      by metis
    then have "vid \<in> activeJobs w4" using act by simp
    then show "segLoop (withSecondCall ff ff2 vid) vid v D (segmentTotal D) rows [0..<segmentTotal D] w4
          = segLoop ff vid v D (segmentTotal D) rows [0..<segmentTotal D] w4"
      by (rule segLoop_second_call [OF keep])
  qed
  show ?thesis
    by (simp add: runBody_def loop split: sum.splits prod.splits)
qed

text \<open>
  Claim C8. A call of \<^verbatim>\<open>generateClipsForVideo\<close> for a video that is in the set of running
  jobs returns at once and leaves the whole state as it is. A call for a video that is not in
  the set leaves it out of the set when the call ends, whatever the outcome (completed,
  failed, stopped, not approved, or an exception). And while a run waits for the transcoder
  its video is in the set: calling \<^verbatim>\<open>generateClipsForVideo\<close> for the same video during every
  one of these waits changes neither the outcome nor the final state of the run.
\<close>

theorem in_flight_guard:
  "(vid \<in> activeJobs w \<longrightarrow> generateClipsForVideo ff vid w = (Skipped, w))
   \<and> (vid \<notin> activeJobs w \<longrightarrow> vid \<notin> activeJobs (snd (generateClipsForVideo ff vid w)))
   \<and> (keepsRunning ff vid \<longrightarrow>
        generateClipsForVideo (withSecondCall ff ff2 vid) vid w = generateClipsForVideo ff vid w)"
proof -
  have "keepsRunning ff vid \<Longrightarrow>
        generateClipsForVideo (withSecondCall ff ff2 vid) vid w = generateClipsForVideo ff vid w"
    by (simp add: generateClipsForVideo_def Let_def runBody_second_call)
  then show ?thesis by (simp add: generateClipsForVideo_def Let_def)
qed

lemma writingFfmpeg_keepsRunning: "keepsRunning writingFfmpeg vid"
  by (simp add: keepsRunning_def writingFfmpeg_def)

theorem in_flight_guard_witness:
  "''v1'' \<in> activeJobs ((emptyWorld (cachedVideo 250))\<lparr>activeJobs := {''v1''}\<rparr>)
   \<and> generateClipsForVideo writingFfmpeg ''v1'' ((emptyWorld (cachedVideo 250))\<lparr>activeJobs := {''v1''}\<rparr>)
       = (Skipped, (emptyWorld (cachedVideo 250))\<lparr>activeJobs := {''v1''}\<rparr>)
   \<and> ''v1'' \<notin> activeJobs (emptyWorld (cachedVideo 250))
   \<and> ''v1'' \<notin> activeJobs (snd (generateClipsForVideo writingFfmpeg ''v1'' (emptyWorld (cachedVideo 250))))
   \<and> keepsRunning writingFfmpeg ''v1''
   \<and> generateClipsForVideo (withSecondCall writingFfmpeg rejectedMeanwhile ''v1'') ''v1''
         (emptyWorld (cachedVideo 250))
       = generateClipsForVideo writingFfmpeg ''v1'' (emptyWorld (cachedVideo 250))"
proof -
  have a: "''v1'' \<in> activeJobs ((emptyWorld (cachedVideo 250))\<lparr>activeJobs := {''v1''}\<rparr>)"
    by simp
  have b: "''v1'' \<notin> activeJobs (emptyWorld (cachedVideo 250))"
    by (simp add: emptyWorld_def)
  have c: "keepsRunning writingFfmpeg ''v1''" by (rule writingFfmpeg_keepsRunning)
  from in_flight_guard [of "''v1''" "(emptyWorld (cachedVideo 250))\<lparr>activeJobs := {''v1''}\<rparr>"
                          writingFfmpeg rejectedMeanwhile]
       in_flight_guard [of "''v1''" "emptyWorld (cachedVideo 250)" writingFfmpeg rejectedMeanwhile]
       a b c
  show ?thesis by blast
qed

end
